theory Spec2Isabelle
  imports Complex_Main
begin

section \<open>Data model of the lobby racing server\<close>

text \<open>
  The embedding follows \<^verbatim>\<open>lobby-server.js\<close> (class \<^verbatim>\<open>GameLobby\<close> and the socket
  handlers around it). JavaScript numbers that hold counts and millisecond timestamps are
  integers here; every other number is a real, so the rounding of IEEE doubles is not
  part of the model. \<^verbatim>\<open>Date.now()\<close> and \<^verbatim>\<open>Math.random()\<close> are parameters of the
  functions that call them. Of the messages sent to clients only the \<^verbatim>\<open>scoreEvent\<close>
  ones are kept, as a returned list; the others never feed back into the state.

  Player, obstacle and boost pad share field names in the source (\<^verbatim>\<open>x\<close>, \<^verbatim>\<open>y\<close>,
  \<^verbatim>\<open>speed\<close>, \<^verbatim>\<open>playerNum\<close>, ...); the obstacle's fields carry the prefix \<open>ob_\<close>, the
  pad's \<open>pad_\<close>, and the player's \<^verbatim>\<open>id\<close>, \<^verbatim>\<open>name\<close>, \<^verbatim>\<open>x\<close>, \<^verbatim>\<open>y\<close>, \<^verbatim>\<open>width\<close>,
  \<^verbatim>\<open>height\<close> the prefix \<open>pl_\<close>.
\<close>

record inputVec =
  up :: bool
  down :: bool
  left :: bool
  right :: bool

text \<open>
  \<^verbatim>\<open>player.input\<close> is whatever the client sent as \<^verbatim>\<open>data.input\<close>: \<open>None\<close> stands
  for a falsy value (\<^verbatim>\<open>updatePlayer\<close> returns at once), \<open>Some\<close> for an object whose four
  fields are read for their truth value. \<^verbatim>\<open>speedBonusTimer\<close> is created lazily by
  \<^verbatim>\<open>updatePlayer\<close>, which reads an absent field as 0.
\<close>

record player =
  pl_id :: string
  playerNum :: nat
  pl_name :: string
  pl_x :: real
  pl_y :: real
  pl_width :: real
  pl_height :: real
  speed :: real
  maxSpeed :: real
  angle :: real
  velocityX :: real
  velocityY :: real
  turnSpeed :: real
  boosting :: bool
  boostTime :: int
  score :: real
  streak :: int
  multiplier :: real
  perfectCount :: int
  lastObstacleTime :: int
  comboTimer :: int
  nearMissCount :: int
  input :: "inputVec option"
  speedBonusTimer :: int

record obstacle =
  ob_id :: real
  ob_x :: real
  ob_y :: real
  ob_width :: real
  ob_height :: real
  ob_speed :: real
  ob_playerNum :: nat
  nearMissAwarded :: bool

record boostPad =
  pad_id :: real
  pad_x :: real
  pad_y :: real
  pad_width :: real
  pad_height :: real
  pad_speed :: real
  used :: bool
  pad_playerNum :: nat

datatype scoreType = Speed | NearMiss | Perfect

text \<open>\<^verbatim>\<open>io.to(player.id).emit('scoreEvent', {playerId, type, points, x, y})\<close>\<close>

datatype scoreEvent = ScoreEvent string scoreType real real real

fun ev_type :: "scoreEvent \<Rightarrow> scoreType" where
  "ev_type (ScoreEvent i t pts ex ey) = t"

text \<open>The object literal of \<^verbatim>\<open>addPlayer\<close>.\<close>

definition newPlayer :: "int \<Rightarrow> string \<Rightarrow> string \<Rightarrow> nat \<Rightarrow> player" where
  "newPlayer now socketId playerName num =
     \<lparr> pl_id = socketId, playerNum = num, pl_name = playerName,
       pl_x = 200, pl_y = 500, pl_width = 30, pl_height = 60,
       speed = 0, maxSpeed = 8, angle = 0, velocityX = 0, velocityY = 0, turnSpeed = 0,
       boosting = False, boostTime = 0, score = 0, streak = 0, multiplier = 1,
       perfectCount = 0, lastObstacleTime = now, comboTimer = 0, nearMissCount = 0,
       input = Some \<lparr> up = False, down = False, left = False, right = False \<rparr>,
       speedBonusTimer = 0 \<rparr>"

section \<open>The per-tick player update\<close>

text \<open>Handle boost timing.\<close>

definition boostTiming :: "player \<Rightarrow> player" where
  "boostTiming p =
     (if boosting p then
        (let p1 = p\<lparr>boostTime := boostTime p - 1\<rparr>
         in if boostTime p1 \<le> 0 then p1\<lparr>boosting := False, maxSpeed := 8\<rparr> else p1)
      else p)"

text \<open>
  The local \<^verbatim>\<open>targetSpeed\<close>: it starts at 0, the \<^verbatim>\<open>up\<close> test assigns it, and the
  \<^verbatim>\<open>down\<close> test, which comes second and is no \<^verbatim>\<open>else\<close> branch, assigns it again.
\<close>

definition targetSpeed :: "inputVec \<Rightarrow> player \<Rightarrow> real" where
  "targetSpeed inp p =
     (let t0 = 0;
          t1 = (if up inp then (if boosting p then 15 else maxSpeed p) else t0);
          t2 = (if down inp then - maxSpeed p / 2 else t1)
      in t2)"

text \<open>Smooth speed transitions.\<close>

definition accelerate :: "inputVec \<Rightarrow> player \<Rightarrow> player" where
  "accelerate inp p =
     (let speedDiff = targetSpeed inp p - speed p;
          p1 = p\<lparr>speed := speed p + speedDiff * 0.3\<rparr>
      in p1\<lparr>speed := speed p1 * 0.95\<rparr>)"

text \<open>Steering and turning.\<close>

definition steer :: "inputVec \<Rightarrow> player \<Rightarrow> player" where
  "steer inp p =
     (let steeringSensitivity = min 1 (\<bar>speed p\<bar> / 4);
          maxSteer = 4 * steeringSensitivity;
          p1 = (if left inp then p\<lparr>turnSpeed := max (turnSpeed p - 0.4) (- maxSteer)\<rparr>
                else if right inp then p\<lparr>turnSpeed := min (turnSpeed p + 0.4) maxSteer\<rparr>
                else p\<lparr>turnSpeed := turnSpeed p * 0.85\<rparr>);
          turnInfluence = min 1 (\<bar>speed p1\<bar> / 3)
      in p1\<lparr>angle := angle p1 + (turnSpeed p1 * 0.02) * turnInfluence\<rparr>)"

text \<open>Physics-based movement, air resistance, and the clamp to the screen.\<close>

definition move :: "player \<Rightarrow> player" where
  "move p =
     (let forwardX = sin (angle p);
          forwardY = - cos (angle p);
          p1 = p\<lparr>velocityX := velocityX p + forwardX * speed p * 0.1,
                 velocityY := velocityY p + forwardY * speed p * 0.1\<rparr>;
          p2 = p1\<lparr>velocityX := velocityX p1 * 0.95, velocityY := velocityY p1 * 0.95\<rparr>;
          p3 = p2\<lparr>pl_x := pl_x p2 + velocityX p2, pl_y := pl_y p2 + velocityY p2\<rparr>
      in p3\<lparr>pl_x := max 30 (min 370 (pl_x p3)), pl_y := max 50 (min 550 (pl_y p3))\<rparr>)"

text \<open>The speed points of the tick and the speed bonus event every 60 frames.\<close>

definition speedPoints :: "player \<Rightarrow> int" where
  "speedPoints p = \<lfloor>\<bar>speed p\<bar> * 0.1\<rfloor>"

definition speedScore :: "player \<Rightarrow> player \<times> scoreEvent list" where
  "speedScore p =
     (let sp = speedPoints p;
          p1 = p\<lparr>score := score p + of_int sp * multiplier p\<rparr>;
          p2 = p1\<lparr>speedBonusTimer := speedBonusTimer p1 + 1\<rparr>
      in if speedBonusTimer p2 \<ge> 60 \<and> sp > 0 then
           (let bonusPoints = \<lfloor>of_int sp * multiplier p2 * 5\<rfloor>
            in (p2\<lparr>speedBonusTimer := 0\<rparr>,
                [ScoreEvent (pl_id p2) Speed (of_int bonusPoints) (pl_x p2) (pl_y p2)]))
         else (p2, []))"

text \<open>Combo timer.\<close>

definition comboDecay :: "player \<Rightarrow> player" where
  "comboDecay p =
     (if comboTimer p > 0 then
        (let p1 = p\<lparr>comboTimer := comboTimer p - 1\<rparr>
         in if comboTimer p1 = 0 then p1\<lparr>multiplier := max 1 (multiplier p1 - 0.5)\<rparr> else p1)
      else p)"

text \<open>Streak decay after 3000 ms without an obstacle event.\<close>

definition streakDecay :: "int \<Rightarrow> player \<Rightarrow> player" where
  "streakDecay now p =
     (if now - lastObstacleTime p > 3000 then
        (let p1 = (if streak p > 0 then
                     (let q = p\<lparr>streak := max 0 (streak p - 1)\<rparr>
                      in q\<lparr>multiplier := 1 + of_int (streak q) * 0.2\<rparr>)
                   else p)
         in p1\<lparr>lastObstacleTime := now\<rparr>)
      else p)"

definition updatePlayer :: "int \<Rightarrow> player \<Rightarrow> player \<times> scoreEvent list" where
  "updatePlayer now p =
     (case input p of
        None \<Rightarrow> (p, [])
      | Some inp \<Rightarrow>
          (let p1 = boostTiming p;
               p2 = accelerate inp p1;
               p3 = steer inp p2;
               p4 = move p3;
               (p5, evs) = speedScore p4;
               p6 = comboDecay p5;
               p7 = streakDecay now p6
           in (p7, evs)))"


section \<open>Obstacles and boost pads\<close>

text \<open>
  \<^verbatim>\<open>createObstacles\<close> and \<^verbatim>\<open>createBoostPads\<close> make one object per player, in the
  order of \<^verbatim>\<open>Object.values(this.players)\<close>. Each object draws \<^verbatim>\<open>Math.random()\<close> in
  the order of its literal: \<open>rnd i\<close> is the \<open>i\<close>-th draw of the call.
\<close>

fun createObstaclesFrom :: "int \<Rightarrow> (nat \<Rightarrow> real) \<Rightarrow> nat \<Rightarrow> player list \<Rightarrow> obstacle list" where
  "createObstaclesFrom now rnd i [] = []"
| "createObstaclesFrom now rnd i (p # ps) =
     \<lparr> ob_id = of_int now + rnd i, ob_x = rnd (i + 1) * 320 + 40, ob_y = - 50,
       ob_width = 30, ob_height = 60, ob_speed = 2 + rnd (i + 2) * 3,
       ob_playerNum = playerNum p, nearMissAwarded = False \<rparr>
     # createObstaclesFrom now rnd (i + 3) ps"

fun createBoostPadsFrom :: "int \<Rightarrow> (nat \<Rightarrow> real) \<Rightarrow> nat \<Rightarrow> player list \<Rightarrow> boostPad list" where
  "createBoostPadsFrom now rnd i [] = []"
| "createBoostPadsFrom now rnd i (p # ps) =
     \<lparr> pad_id = of_int now + rnd i, pad_x = rnd (i + 1) * 280 + 60, pad_y = - 80,
       pad_width = 60, pad_height = 30, pad_speed = 2, used = False,
       pad_playerNum = playerNum p \<rparr>
     # createBoostPadsFrom now rnd (i + 2) ps"

text \<open>
  \<^verbatim>\<open>Object.values(this.players).find(p => p.playerNum === obstacle.playerNum)\<close> followed
  by updates of the object found: the first entry with that seat number is changed in
  place.
\<close>

fun modifyFirst :: "('a \<Rightarrow> bool) \<Rightarrow> ('a \<Rightarrow> 'a) \<Rightarrow> ('k \<times> 'a) list \<Rightarrow> ('k \<times> 'a) list" where
  "modifyFirst P f [] = []"
| "modifyFirst P f ((k, v) # kvs) =
     (if P v then (k, f v) # kvs else (k, v) # modifyFirst P f kvs)"

definition survivalAward :: "int \<Rightarrow> player \<Rightarrow> player" where
  "survivalAward now p =
     (let survivalPoints = (5 + of_int (streak p)) * multiplier p;
          p1 = p\<lparr>score := score p + survivalPoints\<rparr>;
          p2 = p1\<lparr>streak := streak p1 + 1\<rparr>;
          p3 = p2\<lparr>multiplier := min 5 (1 + of_int (streak p2) * 0.2)\<rparr>
      in p3\<lparr>lastObstacleTime := now\<rparr>)"

definition advanceObstacle :: "obstacle \<Rightarrow> obstacle" where
  "advanceObstacle ob = ob\<lparr>ob_y := ob_y ob + (ob_speed ob + 3)\<rparr>"

text \<open>
  \<^verbatim>\<open>updateObstacles\<close>: the filter callback moves each obstacle, and for one that is
  past 650 it rewards the player found and drops the obstacle.
\<close>

fun updateObstacles ::
  "int \<Rightarrow> obstacle list \<Rightarrow> (string \<times> player) list \<Rightarrow> obstacle list \<times> (string \<times> player) list" where
  "updateObstacles now [] ps = ([], ps)"
| "updateObstacles now (ob # obs) ps =
     (let ob1 = advanceObstacle ob
      in if ob_y ob1 > 650 then
           updateObstacles now obs
             (modifyFirst (\<lambda>p. playerNum p = ob_playerNum ob1) (survivalAward now) ps)
         else
           (let (obs', ps') = updateObstacles now obs ps in (ob1 # obs', ps')))"

definition updateBoostPads :: "boostPad list \<Rightarrow> boostPad list" where
  "updateBoostPads pads =
     filter (\<lambda>pad. pad_y pad \<le> 650)
       (map (\<lambda>pad. pad\<lparr>pad_y := pad_y pad + (pad_speed pad + 3)\<rparr>) pads)"

section \<open>Collisions\<close>

definition overlapsObstacle :: "player \<Rightarrow> obstacle \<Rightarrow> bool" where
  "overlapsObstacle p ob \<longleftrightarrow>
     pl_x p < ob_x ob + ob_width ob \<and> pl_x p + pl_width p > ob_x ob \<and>
     pl_y p < ob_y ob + ob_height ob \<and> pl_y p + pl_height p > ob_y ob"

text \<open>The body of the obstacle loop of \<^verbatim>\<open>checkCollisions\<close>, for one player and one obstacle.\<close>

definition collideObstacle :: "player \<Rightarrow> obstacle \<Rightarrow> player \<times> obstacle \<times> scoreEvent list" where
  "collideObstacle p ob =
     (if ob_playerNum ob = playerNum p then
        (let distance = sqrt ((pl_x p + pl_width p / 2 - (ob_x ob + ob_width ob / 2))\<^sup>2 +
                              (pl_y p + pl_height p / 2 - (ob_y ob + ob_height ob / 2))\<^sup>2)
         in if overlapsObstacle p ob then
              (let p1 = p\<lparr>speed := speed p * 0.3\<rparr>;
                   p2 = p1\<lparr>velocityX := velocityX p1 * (- 0.5)\<rparr>;
                   p3 = p2\<lparr>velocityY := velocityY p2 * (- 0.5)\<rparr>;
                   penalty = - 50 - of_int (streak p3) * 5;
                   p4 = p3\<lparr>score := score p3 + penalty\<rparr>;
                   p5 = p4\<lparr>streak := 0, multiplier := 1, nearMissCount := 0\<rparr>
               in (p5, ob\<lparr>ob_y := 700\<rparr>, []))
            else if distance < 200 \<and> ob_y ob > pl_y p - 200 \<and> ob_y ob < pl_y p + 200 then
              (if \<not> nearMissAwarded ob then
                 (let nearMissPoints = 25 * multiplier p;
                      p1 = p\<lparr>score := score p + nearMissPoints\<rparr>;
                      p2 = p1\<lparr>nearMissCount := nearMissCount p1 + 1\<rparr>;
                      ob1 = ob\<lparr>nearMissAwarded := True\<rparr>;
                      e1 = ScoreEvent (pl_id p2) NearMiss nearMissPoints (pl_x p2) (pl_y p2)
                  in if nearMissCount p2 \<ge> 2 then
                       (let perfectPoints = 100 * multiplier p2;
                            p3 = p2\<lparr>score := score p2 + perfectPoints\<rparr>;
                            p4 = p3\<lparr>nearMissCount := 0\<rparr>;
                            p5 = p4\<lparr>perfectCount := perfectCount p4 + 1\<rparr>;
                            e2 = ScoreEvent (pl_id p5) Perfect perfectPoints (pl_x p5) (pl_y p5)
                        in (p5, ob1, [e1, e2]))
                     else (p2, ob1, [e1]))
               else (p, ob, []))
            else (p, ob, []))
      else (p, ob, []))"

text \<open>The body of the boost pad loop of \<^verbatim>\<open>checkCollisions\<close>.\<close>

definition collidePad :: "int \<Rightarrow> player \<Rightarrow> boostPad \<Rightarrow> player \<times> boostPad" where
  "collidePad now p pad =
     (if pad_playerNum pad = playerNum p \<and> \<not> used pad \<and>
         pl_x p < pad_x pad + pad_width pad \<and> pl_x p + pl_width p > pad_x pad \<and>
         pl_y p < pad_y pad + pad_height pad \<and> pl_y p + pl_height p > pad_y pad then
        (let p1 = p\<lparr>boosting := True, boostTime := 180, maxSpeed := 15\<rparr>;
             pad1 = pad\<lparr>used := True\<rparr>;
             boostPoints = (50 + of_int (streak p1) * 10) * multiplier p1;
             p2 = p1\<lparr>score := score p1 + boostPoints\<rparr>;
             p3 = p2\<lparr>streak := streak p2 + 1\<rparr>;
             p4 = p3\<lparr>multiplier := min 5 (1 + of_int (streak p3) * 0.2)\<rparr>
         in (p4\<lparr>comboTimer := 300, lastObstacleTime := now\<rparr>, pad1))
      else (p, pad))"

fun checkObstacles :: "player \<Rightarrow> obstacle list \<Rightarrow> player \<times> obstacle list \<times> scoreEvent list" where
  "checkObstacles p [] = (p, [], [])"
| "checkObstacles p (ob # obs) =
     (let (p1, ob1, ev1) = collideObstacle p ob;
          (p2, obs2, ev2) = checkObstacles p1 obs
      in (p2, ob1 # obs2, ev1 @ ev2))"

fun checkPads :: "int \<Rightarrow> player \<Rightarrow> boostPad list \<Rightarrow> player \<times> boostPad list" where
  "checkPads now p [] = (p, [])"
| "checkPads now p (pad # pads) =
     (let (p1, pad1) = collidePad now p pad;
          (p2, pads2) = checkPads now p1 pads
      in (p2, pad1 # pads2))"

fun checkCollisions ::
  "int \<Rightarrow> (string \<times> player) list \<Rightarrow> obstacle list \<Rightarrow> boostPad list \<Rightarrow>
   (string \<times> player) list \<times> obstacle list \<times> boostPad list \<times> scoreEvent list" where
  "checkCollisions now [] obs pads = ([], obs, pads, [])"
| "checkCollisions now ((k, p) # ps) obs pads =
     (let (p1, obs1, ev1) = checkObstacles p obs;
          (p2, pads1) = checkPads now p1 pads;
          (ps', obs2, pads2, ev2) = checkCollisions now ps obs1 pads1
      in ((k, p2) # ps', obs2, pads2, ev1 @ ev2))"


section \<open>The lobby\<close>

text \<open>
  \<^verbatim>\<open>players\<close> is an object keyed by socket id; its keys keep insertion order, so it is
  an association list with distinct keys. The fields of \<^verbatim>\<open>gameState\<close> are fields of
  the lobby. \<open>gameLoop\<close> tells whether the interval of \<^verbatim>\<open>startGame\<close> is scheduled.
  \<^verbatim>\<open>gameStartTime\<close> and \<^verbatim>\<open>gameDuration\<close> are read by \<^verbatim>\<open>updateGame\<close> only, which
  runs in that interval, after \<^verbatim>\<open>startGame\<close> has set them; \<^verbatim>\<open>gameEnded\<close> is read for
  its truth value only, an absent one counting as false.
\<close>

record lobby =
  lb_id :: string
  lb_name :: string
  players :: "(string \<times> player) list"
  gameStarted :: bool
  obstacles :: "obstacle list"
  boostPads :: "boostPad list"
  roadOffset :: real
  timeRemaining :: "int option"
  gameLoop :: bool
  createdAt :: int
  gameStartTime :: int
  gameDuration :: int
  gameEnded :: bool

text \<open>\<^verbatim>\<open>obj[key] = value\<close> and \<^verbatim>\<open>delete obj[key]\<close>.\<close>

fun setProp :: "'k \<Rightarrow> 'v \<Rightarrow> ('k \<times> 'v) list \<Rightarrow> ('k \<times> 'v) list" where
  "setProp k v [] = [(k, v)]"
| "setProp k v ((k', v') # kvs) =
     (if k' = k then (k, v) # kvs else (k', v') # setProp k v kvs)"

definition deleteProp :: "'k \<Rightarrow> ('k \<times> 'v) list \<Rightarrow> ('k \<times> 'v) list" where
  "deleteProp k kvs = filter (\<lambda>kv. fst kv \<noteq> k) kvs"

definition startGame :: "int \<Rightarrow> lobby \<Rightarrow> lobby" where
  "startGame now l =
     l\<lparr>gameStarted := True, gameStartTime := now, gameDuration := 30000, gameEnded := False,
       obstacles := [], boostPads := [], roadOffset := 0, timeRemaining := Some 30,
       gameLoop := True\<rparr>"

definition finishGame :: "lobby \<Rightarrow> lobby" where
  "finishGame l = l\<lparr>gameEnded := True, gameLoop := False\<rparr>"

definition restartPlayer :: "player \<Rightarrow> player" where
  "restartPlayer p =
     p\<lparr>pl_x := 200, pl_y := 500, speed := 0, angle := 0, velocityX := 0, velocityY := 0,
       score := 0, streak := 0, multiplier := 1, boosting := False, boostTime := 0\<rparr>"

definition restartGame :: "int \<Rightarrow> lobby \<Rightarrow> lobby" where
  "restartGame now l = startGame now (l\<lparr>players := map (apsnd restartPlayer) (players l)\<rparr>)"

definition endGamePlayer :: "player \<Rightarrow> player" where
  "endGamePlayer p =
     p\<lparr>pl_x := 200, pl_y := 500, speed := 0, angle := 0, score := 0, streak := 0,
       multiplier := 1\<rparr>"

definition endGame :: "lobby \<Rightarrow> lobby" where
  "endGame l =
     l\<lparr>gameStarted := False, gameEnded := False, gameLoop := False,
       players := map (apsnd endGamePlayer) (players l)\<rparr>"

text \<open>
  \<^verbatim>\<open>addPlayer\<close> and \<^verbatim>\<open>removePlayer\<close> also write the global map \<^verbatim>\<open>playerSockets\<close>
  (socket id to lobby id), which is passed in and returned.
\<close>

definition addPlayer ::
  "int \<Rightarrow> string \<Rightarrow> string \<Rightarrow> lobby \<Rightarrow> (string \<rightharpoonup> string) \<Rightarrow> bool \<times> lobby \<times> (string \<rightharpoonup> string)" where
  "addPlayer now socketId playerName l socks =
     (if length (players l) \<ge> 2 then (False, l, socks)
      else
        (let num = length (players l) + 1;
             l1 = l\<lparr>players := setProp socketId (newPlayer now socketId playerName num) (players l)\<rparr>;
             socks1 = socks(socketId \<mapsto> lb_id l1);
             l2 = (if length (players l1) = 2 then startGame now l1 else l1)
         in (True, l2, socks1)))"

definition removePlayer ::
  "string \<Rightarrow> lobby \<Rightarrow> (string \<rightharpoonup> string) \<Rightarrow> bool \<times> lobby \<times> (string \<rightharpoonup> string)" where
  "removePlayer socketId l socks =
     (let l1 = l\<lparr>players := deleteProp socketId (players l)\<rparr>;
          socks1 = socks(socketId := None)
      in if length (players l1) = 0 then
           (True, (if gameLoop l1 then l1\<lparr>gameLoop := False\<rparr> else l1), socks1)
         else if gameStarted l1 \<and> length (players l1) < 2 then (False, endGame l1, socks1)
         else (False, l1, socks1))"

text \<open>The constructor.\<close>

definition newLobby ::
  "int \<Rightarrow> string \<Rightarrow> string \<Rightarrow> string \<Rightarrow> string \<Rightarrow> (string \<rightharpoonup> string) \<Rightarrow> lobby \<times> (string \<rightharpoonup> string)" where
  "newLobby now lid lname creatorId creatorName socks =
     (let l0 = \<lparr> lb_id = lid, lb_name = lname, players = [], gameStarted = False,
                 obstacles = [], boostPads = [], roadOffset = 0, timeRemaining = None,
                 gameLoop = False, createdAt = now, gameStartTime = 0, gameDuration = 0,
                 gameEnded = False \<rparr>
      in snd (addPlayer now creatorId creatorName l0 socks))"

text \<open>The \<^verbatim>\<open>Math.random()\<close> draws of one tick, in the order \<^verbatim>\<open>updateGame\<close> makes them.\<close>

record tickRandom =
  obstacleRoll :: real
  obstacleDraws :: "nat \<Rightarrow> real"
  padRoll :: real
  padDraws :: "nat \<Rightarrow> real"

fun updatePlayers ::
  "int \<Rightarrow> (string \<times> player) list \<Rightarrow> (string \<times> player) list \<times> scoreEvent list" where
  "updatePlayers now [] = ([], [])"
| "updatePlayers now ((k, p) # ps) =
     (let (p', ev1) = updatePlayer now p;
          (ps', ev2) = updatePlayers now ps
      in ((k, p') # ps', ev1 @ ev2))"

definition updateGame :: "int \<Rightarrow> tickRandom \<Rightarrow> lobby \<Rightarrow> lobby \<times> scoreEvent list" where
  "updateGame now rnd l =
     (let tr = max 0 \<lceil>real_of_int (gameDuration l - (now - gameStartTime l)) / 1000\<rceil>;
          la = (if \<not> gameEnded l then l\<lparr>timeRemaining := Some tr\<rparr> else l)
      in if \<not> gameEnded l \<and> tr \<le> 0 then (finishGame la, [])
         else
           (let (ps1, ev1) = updatePlayers now (players la);
                l1 = la\<lparr>players := ps1\<rparr>;
                l2 = (if obstacleRoll rnd < 0.01 then
                        l1\<lparr>obstacles := obstacles l1 @
                             createObstaclesFrom now (obstacleDraws rnd) 0 (map snd (players l1))\<rparr>
                      else l1);
                l3 = (if padRoll rnd < 0.005 then
                        l2\<lparr>boostPads := boostPads l2 @
                             createBoostPadsFrom now (padDraws rnd) 0 (map snd (players l2))\<rparr>
                      else l2);
                (obs4, ps4) = updateObstacles now (obstacles l3) (players l3);
                l4 = l3\<lparr>obstacles := obs4, players := ps4\<rparr>;
                l5 = l4\<lparr>boostPads := updateBoostPads (boostPads l4)\<rparr>;
                (ps6, obs6, pads6, ev6) = checkCollisions now (players l5) (obstacles l5) (boostPads l5)
            in (l5\<lparr>players := ps6, obstacles := obs6, boostPads := pads6\<rparr>, ev1 @ ev6)))"

text \<open>
  The steps of \<^verbatim>\<open>updateGame\<close> by name. \<open>timeLeft\<close> is its \<^verbatim>\<open>timeRemaining\<close>, and
  a tick runs when the timer check does not end the match. For a tick that runs,
  \<open>beforeObstacles\<close> is the lobby when \<^verbatim>\<open>this.updateObstacles()\<close> is called (timer
  written, players updated, spawns appended), \<open>obstacleStage\<close> is that call, and
  \<open>afterObstacles\<close> is what follows it, \<^verbatim>\<open>updateBoostPads\<close> and \<^verbatim>\<open>checkCollisions\<close>.
\<close>

definition timeLeft :: "int \<Rightarrow> lobby \<Rightarrow> int" where
  "timeLeft now l = max 0 \<lceil>real_of_int (gameDuration l - (now - gameStartTime l)) / 1000\<rceil>"

definition tickRuns :: "int \<Rightarrow> lobby \<Rightarrow> bool" where
  "tickRuns now l \<longleftrightarrow> \<not> (\<not> gameEnded l \<and> timeLeft now l \<le> 0)"

definition spawnedObstacles :: "int \<Rightarrow> tickRandom \<Rightarrow> lobby \<Rightarrow> obstacle list" where
  "spawnedObstacles now rnd l =
     (if obstacleRoll rnd < 0.01 then
        createObstaclesFrom now (obstacleDraws rnd) 0 (map snd (fst (updatePlayers now (players l))))
      else [])"

definition beforeObstacles :: "int \<Rightarrow> tickRandom \<Rightarrow> lobby \<Rightarrow> lobby" where
  "beforeObstacles now rnd l =
     (let la = (if \<not> gameEnded l then l\<lparr>timeRemaining := Some (timeLeft now l)\<rparr> else l);
          l1 = la\<lparr>players := fst (updatePlayers now (players la))\<rparr>;
          l2 = l1\<lparr>obstacles := obstacles l1 @ spawnedObstacles now rnd l\<rparr>
      in if padRoll rnd < 0.005 then
           l2\<lparr>boostPads := boostPads l2 @
                createBoostPadsFrom now (padDraws rnd) 0 (map snd (players l2))\<rparr>
         else l2)"

definition obstacleStage :: "int \<Rightarrow> lobby \<Rightarrow> lobby" where
  "obstacleStage now m =
     (case updateObstacles now (obstacles m) (players m) of
        (obs, ps) \<Rightarrow> m\<lparr>obstacles := obs, players := ps\<rparr>)"

definition afterObstacles :: "int \<Rightarrow> lobby \<Rightarrow> lobby \<times> scoreEvent list" where
  "afterObstacles now m =
     (let l5 = m\<lparr>boostPads := updateBoostPads (boostPads m)\<rparr>;
          (ps6, obs6, pads6, ev6) = checkCollisions now (players l5) (obstacles l5) (boostPads l5)
      in (l5\<lparr>players := ps6, obstacles := obs6, boostPads := pads6\<rparr>, ev6))"

section \<open>The registry and its handlers\<close>

text \<open>
  \<^verbatim>\<open>lobbies\<close> is a \<^verbatim>\<open>Map\<close> from lobby id to lobby, in insertion order. A handler
  looks the lobby up, calls its method and, where the method changed the object, stores
  the changed lobby under the same key.
\<close>

record server =
  lobbies :: "(string \<times> lobby) list"
  playerSockets :: "string \<rightharpoonup> string"

datatype joinReply = LobbyNotFound | JoinedLobby string string nat | LobbyFull

definition joinLobby :: "int \<Rightarrow> string \<Rightarrow> string \<Rightarrow> string \<Rightarrow> server \<Rightarrow> server \<times> joinReply" where
  "joinLobby now socketId lobbyId playerName s =
     (case map_of (lobbies s) lobbyId of
        None \<Rightarrow> (s, LobbyNotFound)
      | Some l \<Rightarrow>
          (case addPlayer now socketId playerName l (playerSockets s) of
             (True, l', socks') \<Rightarrow>
               (s\<lparr>lobbies := setProp lobbyId l' (lobbies s), playerSockets := socks'\<rparr>,
                JoinedLobby lobbyId (lb_name l') (length (players l')))
           | (False, l', socks') \<Rightarrow> (s, LobbyFull)))"

definition createLobby :: "int \<Rightarrow> string \<Rightarrow> string \<Rightarrow> string \<Rightarrow> string \<Rightarrow> server \<Rightarrow> server" where
  "createLobby now socketId lobbyId lobbyName playerName s =
     (let (l, socks') = newLobby now lobbyId lobbyName socketId playerName (playerSockets s)
      in s\<lparr>lobbies := setProp lobbyId l (lobbies s), playerSockets := socks'\<rparr>)"

definition leaveLobby :: "string \<Rightarrow> string \<Rightarrow> server \<Rightarrow> server" where
  "leaveLobby socketId lobbyId s =
     (case map_of (lobbies s) lobbyId of
        None \<Rightarrow> s
      | Some l \<Rightarrow>
          (case removePlayer socketId l (playerSockets s) of
             (shouldDelete, l', socks') \<Rightarrow>
               (if shouldDelete then
                  s\<lparr>lobbies := deleteProp lobbyId (lobbies s), playerSockets := socks'\<rparr>
                else s\<lparr>lobbies := setProp lobbyId l' (lobbies s), playerSockets := socks'\<rparr>)))"

definition disconnect :: "string \<Rightarrow> server \<Rightarrow> server" where
  "disconnect socketId s =
     (case playerSockets s socketId of
        None \<Rightarrow> s
      | Some lobbyId \<Rightarrow> leaveLobby socketId lobbyId s)"

definition restartGameHandler :: "int \<Rightarrow> string \<Rightarrow> string \<Rightarrow> server \<Rightarrow> server" where
  "restartGameHandler now socketId lobbyId s =
     (case map_of (lobbies s) lobbyId of
        None \<Rightarrow> s
      | Some l \<Rightarrow>
          (if map_of (players l) socketId \<noteq> None \<and> gameEnded l then
             s\<lparr>lobbies := setProp lobbyId (restartGame now l) (lobbies s)\<rparr>
           else s))"

definition playerInput :: "string \<Rightarrow> inputVec option \<Rightarrow> server \<Rightarrow> server" where
  "playerInput socketId inp s =
     (case playerSockets s socketId of
        None \<Rightarrow> s
      | Some lobbyId \<Rightarrow>
          (case map_of (lobbies s) lobbyId of
             None \<Rightarrow> s
           | Some l \<Rightarrow>
               (case map_of (players l) socketId of
                  None \<Rightarrow> s
                | Some p \<Rightarrow>
                    s\<lparr>lobbies :=
                        setProp lobbyId (l\<lparr>players := setProp socketId (p\<lparr>input := inp\<rparr>) (players l)\<rparr>)
                          (lobbies s)\<rparr>)))"

definition backToLobbyFromResults :: "string \<Rightarrow> string \<Rightarrow> server \<Rightarrow> server" where
  "backToLobbyFromResults socketId lobbyId s =
     (case map_of (lobbies s) lobbyId of
        None \<Rightarrow> s
      | Some l \<Rightarrow>
          (if map_of (players l) socketId \<noteq> None then
             s\<lparr>lobbies := setProp lobbyId (endGame l) (lobbies s)\<rparr>
           else s))"

text \<open>One firing of the game loop interval of a lobby: \<^verbatim>\<open>updateGame\<close>, then the broadcast.\<close>

definition tick :: "int \<Rightarrow> tickRandom \<Rightarrow> string \<Rightarrow> server \<Rightarrow> server" where
  "tick now rnd lobbyId s =
     (case map_of (lobbies s) lobbyId of
        None \<Rightarrow> s
      | Some l \<Rightarrow>
          (if gameLoop l then s\<lparr>lobbies := setProp lobbyId (fst (updateGame now rnd l)) (lobbies s)\<rparr>
           else s))"

text \<open>
  The periodic clean-up, the callback of the \<^verbatim>\<open>setInterval\<close> of five minutes
  (\<^verbatim>\<open>5 * 60 * 1000\<close> ms) at the end of the file.
\<close>

definition cleanupDue :: "int \<Rightarrow> lobby \<Rightarrow> bool" where
  "cleanupDue now l \<longleftrightarrow> length (players l) = 0 \<and> now - createdAt l > 10 * 60 * 1000"

definition cleanup :: "int \<Rightarrow> server \<Rightarrow> server" where
  "cleanup now s =
     (let toDelete = map fst (filter (\<lambda>(lid, l). cleanupDue now l) (lobbies s))
      in s\<lparr>lobbies := filter (\<lambda>(lid, l). lid \<notin> set toDelete) (lobbies s)\<rparr>)"


text \<open>The states of the server: it starts with no lobby, and every event runs its handler.\<close>

inductive reachable :: "server \<Rightarrow> bool" where
  r_init: "reachable \<lparr> lobbies = [], playerSockets = Map.empty \<rparr>"
| r_create: "reachable s \<Longrightarrow> reachable (createLobby now socketId lobbyId lobbyName playerName s)"
| r_join: "reachable s \<Longrightarrow> reachable (fst (joinLobby now socketId lobbyId playerName s))"
| r_leave: "reachable s \<Longrightarrow> reachable (leaveLobby socketId lobbyId s)"
| r_disconnect: "reachable s \<Longrightarrow> reachable (disconnect socketId s)"
| r_input: "reachable s \<Longrightarrow> reachable (playerInput socketId inp s)"
| r_restart: "reachable s \<Longrightarrow> reachable (restartGameHandler now socketId lobbyId s)"
| r_back: "reachable s \<Longrightarrow> reachable (backToLobbyFromResults socketId lobbyId s)"
| r_tick: "reachable s \<Longrightarrow> reachable (tick now rnd lobbyId s)"
| r_cleanup: "reachable s \<Longrightarrow> reachable (cleanup now s)"

section \<open>An invariant of the registry and example states\<close>

text \<open>Every lobby of the registry has one or two players.\<close>

definition seated :: "server \<Rightarrow> bool" where
  "seated s \<longleftrightarrow> (\<forall>kv \<in> set (lobbies s). players (snd kv) \<noteq> [] \<and> length (players (snd kv)) \<le> 2)"

text \<open>
  A server on which one socket has created the lobby \<open>L\<close> and a second has joined it,
  and that lobby.
\<close>

definition exampleServer :: server where
  "exampleServer =
     fst (joinLobby 5 ''b'' ''L'' ''Bob''
            (createLobby 0 ''a'' ''L'' ''Lobby'' ''Al'' \<lparr> lobbies = [], playerSockets = Map.empty \<rparr>))"

definition exampleLobby :: lobby where
  "exampleLobby = snd (hd (lobbies exampleServer))"

text \<open>
  The same lobby with its first player holding \<^verbatim>\<open>up\<close>, and draws of a tick in which
  nothing spawns.
\<close>

definition exampleRace :: lobby where
  "exampleRace =
     exampleLobby\<lparr>players :=
       [(''a'', (newPlayer 0 ''a'' ''Al'' 1)\<lparr>input := Some \<lparr> up = True, down = False, left = False, right = False \<rparr>\<rparr>),
        (''b'', newPlayer 5 ''b'' ''Bob'' 2)]\<rparr>"

text \<open>
  The example lobby with one obstacle of seat 1 that overlaps the first player, who
  stands still at the spawn position.
\<close>

definition hitObstacle :: obstacle where
  "hitObstacle = \<lparr> ob_id = 1, ob_x = 210, ob_y = 475, ob_width = 30, ob_height = 60, ob_speed = 2,
                   ob_playerNum = 1, nearMissAwarded = False \<rparr>"

definition exampleHit :: lobby where
  "exampleHit = exampleLobby\<lparr>obstacles := [hitObstacle]\<rparr>"

definition quietRandom :: tickRandom where
  "quietRandom = \<lparr> obstacleRoll = 0.5, obstacleDraws = (\<lambda>i. 0), padRoll = 0.5, padDraws = (\<lambda>i. 0) \<rparr>"

section \<open>Runs\<close>

text \<open>A player updated tick after tick, at the given times, with nothing else touching it.\<close>

fun runPlayer :: "int list \<Rightarrow> player \<Rightarrow> player" where
  "runPlayer [] p = p"
| "runPlayer (t # ts) p = runPlayer ts (fst (updatePlayer t p))"

text \<open>
  A lobby ticked at the given times with the given draws; the interval fires only while
  it is scheduled.
\<close>

fun runGame :: "(int \<times> tickRandom) list \<Rightarrow> lobby \<Rightarrow> lobby" where
  "runGame [] l = l"
| "runGame ((now, rnd) # ticks) l =
     (if gameLoop l then runGame ticks (fst (updateGame now rnd l)) else l)"




section \<open>The example server\<close>

lemma exampleServer_eval:
  "lobbies exampleServer =
     [(''L'', \<lparr> lb_id = ''L'', lb_name = ''Lobby'',
               players = [(''a'', newPlayer 0 ''a'' ''Al'' 1), (''b'', newPlayer 5 ''b'' ''Bob'' 2)],
               gameStarted = True, obstacles = [], boostPads = [], roadOffset = 0,
               timeRemaining = Some 30, gameLoop = True, createdAt = 0, gameStartTime = 5,
               gameDuration = 30000, gameEnded = False \<rparr>)]"
  by (simp add: exampleServer_def joinLobby_def createLobby_def newLobby_def addPlayer_def
        startGame_def Let_def numeral_2_eq_2)

lemma exampleLobby_eval:
  "exampleLobby =
     \<lparr> lb_id = ''L'', lb_name = ''Lobby'',
       players = [(''a'', newPlayer 0 ''a'' ''Al'' 1), (''b'', newPlayer 5 ''b'' ''Bob'' 2)],
       gameStarted = True, obstacles = [], boostPads = [], roadOffset = 0,
       timeRemaining = Some 30, gameLoop = True, createdAt = 0, gameStartTime = 5,
       gameDuration = 30000, gameEnded = False \<rparr>"
  by (simp add: exampleLobby_def exampleServer_eval)

lemma exampleServer_reachable: "reachable exampleServer"
  unfolding exampleServer_def by (intro r_join r_create r_init)

lemma exampleRace_eval:
  "obstacles exampleRace = [] \<and> boostPads exampleRace = [] \<and> gameLoop exampleRace \<and>
   \<not> gameEnded exampleRace \<and> gameDuration exampleRace = 30000 \<and> gameStartTime exampleRace = 5 \<and>
   players exampleRace =
     [(''a'', (newPlayer 0 ''a'' ''Al'' 1)\<lparr>input := Some \<lparr> up = True, down = False, left = False, right = False \<rparr>\<rparr>),
      (''b'', newPlayer 5 ''b'' ''Bob'' 2)]"
  by (simp add: exampleRace_def exampleLobby_eval)

section \<open>The stages of the player update\<close>

lemma updatePlayer_Some:
  "input p = Some inp \<Longrightarrow>
   fst (updatePlayer now p) =
     streakDecay now (comboDecay (fst (speedScore (move (steer inp (accelerate inp (boostTiming p)))))))"
  by (simp add: updatePlayer_def Let_def split: prod.splits)

lemma boostTiming_idle: "\<not> boosting p \<Longrightarrow> boostTiming p = p"
  by (simp add: boostTiming_def)

lemma targetSpeed_down: "down inp \<Longrightarrow> targetSpeed inp p = - maxSpeed p / 2"
  by (simp add: targetSpeed_def)

lemma targetSpeed_up:
  "up inp \<Longrightarrow> \<not> down inp \<Longrightarrow> \<not> boosting q \<Longrightarrow> targetSpeed inp q = maxSpeed q"
  by (simp add: targetSpeed_def)

lemma speed_boostTiming: "speed (boostTiming p) = speed p"
  by (simp add: boostTiming_def Let_def)

lemma speed_accelerate:
  "speed (accelerate inp q) = (speed q + (targetSpeed inp q - speed q) * 0.3) * 0.95"
  by (simp add: accelerate_def Let_def)

lemma speed_steer: "speed (steer inp q) = speed q"
  by (simp add: steer_def Let_def)

lemma speed_move: "speed (move q) = speed q"
  by (simp add: move_def Let_def)

lemma speed_speedScore: "speed (fst (speedScore q)) = speed q"
  by (simp add: speedScore_def Let_def)

lemma speed_comboDecay: "speed (comboDecay q) = speed q"
  by (simp add: comboDecay_def Let_def)

lemma speed_streakDecay: "speed (streakDecay now q) = speed q"
  by (simp add: streakDecay_def Let_def)

lemma speed_updatePlayer:
  "input p = Some inp \<Longrightarrow>
   speed (fst (updatePlayer now p)) =
     (speed p + (targetSpeed inp (boostTiming p) - speed p) * 0.3) * 0.95"
  by (simp only: updatePlayer_Some speed_streakDecay speed_comboDecay speed_speedScore speed_move
        speed_steer speed_accelerate speed_boostTiming)

lemma accelerate_fields:
  "input (accelerate inp q) = input q" "boosting (accelerate inp q) = boosting q"
  "maxSpeed (accelerate inp q) = maxSpeed q" "score (accelerate inp q) = score q"
  by (simp_all add: accelerate_def Let_def)

lemma steer_fields:
  "input (steer inp q) = input q" "boosting (steer inp q) = boosting q"
  "maxSpeed (steer inp q) = maxSpeed q" "score (steer inp q) = score q"
  by (simp_all add: steer_def Let_def)

lemma move_fields:
  "input (move q) = input q" "boosting (move q) = boosting q"
  "maxSpeed (move q) = maxSpeed q" "score (move q) = score q"
  by (simp_all add: move_def Let_def)

lemma speedScore_fields:
  "input (fst (speedScore q)) = input q" "boosting (fst (speedScore q)) = boosting q"
  "maxSpeed (fst (speedScore q)) = maxSpeed q"
  "score (fst (speedScore q)) = score q + of_int (speedPoints q) * multiplier q"
  by (simp_all add: speedScore_def Let_def)

lemma comboDecay_fields:
  "input (comboDecay q) = input q" "boosting (comboDecay q) = boosting q"
  "maxSpeed (comboDecay q) = maxSpeed q" "score (comboDecay q) = score q"
  by (simp_all add: comboDecay_def Let_def)

lemma streakDecay_fields:
  "input (streakDecay now q) = input q" "boosting (streakDecay now q) = boosting q"
  "maxSpeed (streakDecay now q) = maxSpeed q" "score (streakDecay now q) = score q"
  by (simp_all add: streakDecay_def Let_def)

section \<open>Accelerate and brake held together\<close>

text \<open>
  C2, as the specification has it: with \<^verbatim>\<open>up\<close> and \<^verbatim>\<open>down\<close> both held the target
  speed is the accelerate target, \<^verbatim>\<open>maxSpeed\<close> or 15 when boosting. The code assigns the
  brake target last, so the claim fails for a fresh player: the target is not 8.
\<close>

theorem C2_accelerate_priority_counterexample:
  "targetSpeed \<lparr> up = True, down = True, left = False, right = False \<rparr> (newPlayer 0 ''a'' ''A'' 1)
     \<noteq> (if boosting (newPlayer 0 ''a'' ''A'' 1) then 15 else maxSpeed (newPlayer 0 ''a'' ''A'' 1))"
  by (simp add: targetSpeed_def newPlayer_def)

text \<open>
  C2, amended: with \<^verbatim>\<open>up\<close> and \<^verbatim>\<open>down\<close> both held, the target speed of the tick is
  the brake target \<^verbatim>\<open>-maxSpeed / 2\<close> (\<^verbatim>\<open>maxSpeed\<close> read after the boost timing of the
  tick), and the speed relaxes towards it: brake takes priority over accelerate.
\<close>

theorem C2_brake_overrides_accelerate:
  assumes "input p = Some inp" and "up inp" and "down inp"
  shows "targetSpeed inp (boostTiming p) = - maxSpeed (boostTiming p) / 2 \<and>
         speed (fst (updatePlayer now p)) =
           (speed p + (- maxSpeed (boostTiming p) / 2 - speed p) * 0.3) * 0.95"
  using assms by (simp only: speed_updatePlayer targetSpeed_down simp_thms)

theorem C2_brake_overrides_accelerate_witness:
  "input ((newPlayer 0 ''a'' ''A'' 1)\<lparr>input := Some \<lparr> up = True, down = True, left = False, right = False \<rparr>\<rparr>)
     = Some \<lparr> up = True, down = True, left = False, right = False \<rparr> \<and>
   up \<lparr> up = True, down = True, left = False, right = False \<rparr> \<and>
   down \<lparr> up = True, down = True, left = False, right = False \<rparr> \<and>
   speed (fst (updatePlayer 17
     ((newPlayer 0 ''a'' ''A'' 1)\<lparr>input := Some \<lparr> up = True, down = True, left = False, right = False \<rparr>\<rparr>)))
     = - 1.14"
  using C2_brake_overrides_accelerate
    [of "(newPlayer 0 ''a'' ''A'' 1)\<lparr>input := Some \<lparr> up = True, down = True, left = False, right = False \<rparr>\<rparr>"
        "\<lparr> up = True, down = True, left = False, right = False \<rparr>" 17]
  by (simp add: newPlayer_def boostTiming_def)

section \<open>Holding accelerate from the start\<close>

lemma speedPoints_slow: "0 \<le> speed q \<Longrightarrow> speed q < 10 \<Longrightarrow> speedPoints q = 0"
  unfolding speedPoints_def by (rule floor_unique) simp_all

lemma cruise_step:
  assumes i: "input p = Some inp" and u: "up inp" and d: "\<not> down inp"
    and b: "\<not> boosting p" and m: "maxSpeed p = 8"
    and s0: "0 \<le> speed p" and s7: "speed p < 7" and sc: "score p = 0"
  shows "input (fst (updatePlayer now p)) = Some inp \<and> \<not> boosting (fst (updatePlayer now p)) \<and>
         maxSpeed (fst (updatePlayer now p)) = 8 \<and> 0 \<le> speed (fst (updatePlayer now p)) \<and>
         speed (fst (updatePlayer now p)) < 7 \<and> score (fst (updatePlayer now p)) = 0"
proof -
  let ?a = "accelerate inp p"
  let ?m = "move (steer inp ?a)"
  have e: "fst (updatePlayer now p) = streakDecay now (comboDecay (fst (speedScore ?m)))"
    using i by (simp only: updatePlayer_Some boostTiming_idle[OF b])
  have sa: "speed ?a = (speed p + (8 - speed p) * 0.3) * 0.95"
    by (simp only: speed_accelerate targetSpeed_up[OF u d b] m)
  have lo: "0 \<le> speed ?a" and hi: "speed ?a < 7"
    using s0 s7 unfolding sa by (simp_all add: field_simps)
  have sm: "speed ?m = speed ?a"
    by (simp only: speed_move speed_steer)
  have sp: "speedPoints ?m = 0"
    using lo hi by (intro speedPoints_slow) (simp_all add: sm)
  have "score (fst (updatePlayer now p)) = 0"
    by (simp add: e streakDecay_fields comboDecay_fields speedScore_fields sp move_fields
          steer_fields accelerate_fields sc)
  moreover have "speed (fst (updatePlayer now p)) = speed ?a"
    by (simp only: e speed_streakDecay speed_comboDecay speed_speedScore sm)
  moreover have "input (fst (updatePlayer now p)) = Some inp"
    by (simp add: e streakDecay_fields comboDecay_fields speedScore_fields move_fields
          steer_fields accelerate_fields i)
  moreover have "\<not> boosting (fst (updatePlayer now p))"
    by (simp add: e streakDecay_fields comboDecay_fields speedScore_fields move_fields
          steer_fields accelerate_fields b)
  moreover have "maxSpeed (fst (updatePlayer now p)) = 8"
    by (simp add: e streakDecay_fields comboDecay_fields speedScore_fields move_fields
          steer_fields accelerate_fields m)
  ultimately show ?thesis using lo hi by simp
qed

lemma cruise_run:
  assumes "input p = Some inp" and "up inp" and "\<not> down inp"
    and "\<not> boosting p" and "maxSpeed p = 8"
    and "0 \<le> speed p" and "speed p < 7" and "score p = 0"
  shows "score (runPlayer ts p) = 0 \<and> 0 \<le> speed (runPlayer ts p) \<and> speed (runPlayer ts p) < 7"
  using assms
proof (induction ts arbitrary: p)
  case Nil
  then show ?case by simp
next
  case (Cons t ts)
  have st: "input (fst (updatePlayer t p)) = Some inp \<and> \<not> boosting (fst (updatePlayer t p)) \<and>
         maxSpeed (fst (updatePlayer t p)) = 8 \<and> 0 \<le> speed (fst (updatePlayer t p)) \<and>
         speed (fst (updatePlayer t p)) < 7 \<and> score (fst (updatePlayer t p)) = 0"
    by (rule cruise_step) (use Cons.prems in simp_all)
  show ?case
    using Cons.IH[of "fst (updatePlayer t p)"] st Cons.prems(2,3) by simp
qed

lemma updatePlayers_map:
  "fst (updatePlayers now ps) = map (apsnd (\<lambda>p. fst (updatePlayer now p))) ps"
  by (induction now ps rule: updatePlayers.induct) (auto simp: Let_def split: prod.splits)

lemma checkCollisions_empty: "checkCollisions now ps [] [] = (ps, [], [], [])"
  by (induction ps) auto

lemma updateGame_quiet:
  assumes "obstacles l = []" and "boostPads l = []"
    and "\<not> obstacleRoll rnd < 0.01" and "\<not> padRoll rnd < 0.005"
    and "gameEnded l \<or> 0 < \<lceil>real_of_int (gameDuration l - (now - gameStartTime l)) / 1000\<rceil>"
  shows "players (fst (updateGame now rnd l)) = map (apsnd (\<lambda>p. fst (updatePlayer now p))) (players l) \<and>
         obstacles (fst (updateGame now rnd l)) = [] \<and> boostPads (fst (updateGame now rnd l)) = [] \<and>
         gameLoop (fst (updateGame now rnd l)) = gameLoop l \<and>
         gameEnded (fst (updateGame now rnd l)) = gameEnded l \<and>
         gameDuration (fst (updateGame now rnd l)) = gameDuration l \<and>
         gameStartTime (fst (updateGame now rnd l)) = gameStartTime l"
  using assms
  by (auto simp: updateGame_def Let_def case_prod_beta updatePlayers_map checkCollisions_empty
        updateBoostPads_def)

lemma runGame_quiet:
  assumes "obstacles l = []" and "boostPads l = []" and "gameLoop l" and "\<not> gameEnded l"
    and "gameDuration l = 30000"
    and "\<forall>t \<in> set ticks. \<not> obstacleRoll (snd t) < 0.01 \<and> \<not> padRoll (snd t) < 0.005 \<and>
           fst t - gameStartTime l < 30000"
  shows "players (runGame ticks l) = map (apsnd (runPlayer (map fst ticks))) (players l)"
  using assms
proof (induction ticks arbitrary: l)
  case Nil
  then show ?case by (simp add: apsnd_def map_prod_def)
next
  case (Cons t ticks)
  obtain now rnd where t: "t = (now, rnd)" by (cases t) auto
  let ?l = "fst (updateGame now rnd l)"
  have timer: "0 < \<lceil>real_of_int (gameDuration l - (now - gameStartTime l)) / 1000\<rceil>"
    using Cons.prems(5,6) t by (simp add: ceiling_less_iff) 
  have q: "players ?l = map (apsnd (\<lambda>p. fst (updatePlayer now p))) (players l) \<and>
         obstacles ?l = [] \<and> boostPads ?l = [] \<and> gameLoop ?l = gameLoop l \<and>
         gameEnded ?l = gameEnded l \<and> gameDuration ?l = gameDuration l \<and>
         gameStartTime ?l = gameStartTime l"
    using Cons.prems t timer by (intro updateGame_quiet) simp_all
  have "players (runGame ticks ?l) = map (apsnd (runPlayer (map fst ticks))) (players ?l)"
    using Cons.prems q by (intro Cons.IH) simp_all
  then show ?case
    using Cons.prems(3) q t by (simp add: apsnd_def map_prod_def case_prod_beta)
qed

text \<open>
  C3, as the specification has it: a fresh seat that holds \<^verbatim>\<open>up\<close> gains score on
  every tick in which nothing spawns. In the first such tick of the example lobby the
  speed of its first seat becomes 2.28 and \<^verbatim>\<open>speedPoints\<close> is \<open>\<lfloor>0.228\<rfloor> = 0\<close>: the
  score has not grown.
\<close>

theorem C3_score_increases_counterexample:
  "\<not> score (snd (players exampleRace ! 0)) < score (snd (players (runGame [(22, quietRandom)] exampleRace) ! 0))"
proof -
  have "players (runGame [(22, quietRandom)] exampleRace)
      = map (apsnd (runPlayer (map fst [(22, quietRandom)]))) (players exampleRace)"
    by (rule runGame_quiet) (simp_all add: exampleRace_eval quietRandom_def)
  then have "snd (players (runGame [(22, quietRandom)] exampleRace) ! 0) =
      runPlayer [22] ((newPlayer 0 ''a'' ''Al'' 1)\<lparr>input := Some \<lparr> up = True, down = False, left = False, right = False \<rparr>\<rparr>)"
    by (simp add: exampleRace_eval)
  then show ?thesis
    using cruise_run
      [of "(newPlayer 0 ''a'' ''Al'' 1)\<lparr>input := Some \<lparr> up = True, down = False, left = False, right = False \<rparr>\<rparr>"
          "\<lparr> up = True, down = False, left = False, right = False \<rparr>" "[22]"]
    by (simp add: newPlayer_def exampleRace_eval)
qed

text \<open>
  C3, amended: in a running lobby without obstacles and boost pads, ticked any number of
  times before its 30 seconds are over with nothing spawning, a seat that starts as a
  fresh player holding \<^verbatim>\<open>up\<close> and not \<^verbatim>\<open>down\<close> keeps the score 0 on every tick: its
  speed stays below 7 (it approaches 2.28 / 0.335, about 6.8, and never
  \<^verbatim>\<open>maxSpeed = 8\<close>), so \<^verbatim>\<open>speedPoints = floor(|speed| * 0.1)\<close> is 0 each tick.
\<close>

theorem C3_score_stays_zero:
  assumes "up inp" and "\<not> down inp"
    and "obstacles l = []" and "boostPads l = []" and "gameLoop l" and "\<not> gameEnded l"
    and "gameDuration l = 30000"
    and "\<forall>t \<in> set ticks. \<not> obstacleRoll (snd t) < 0.01 \<and> \<not> padRoll (snd t) < 0.005 \<and>
           fst t - gameStartTime l < 30000"
    and "i < length (players l)"
    and "snd (players l ! i) = (newPlayer t0 socketId playerName num)\<lparr>input := Some inp\<rparr>"
  shows "score (snd (players (runGame ticks l) ! i)) = 0 \<and>
         speed (snd (players (runGame ticks l) ! i)) < 7"
proof -
  have "snd (players (runGame ticks l) ! i) =
      runPlayer (map fst ticks) ((newPlayer t0 socketId playerName num)\<lparr>input := Some inp\<rparr>)"
    using runGame_quiet[OF assms(3-8)] assms(9,10) by simp
  then show ?thesis
    using cruise_run[of "(newPlayer t0 socketId playerName num)\<lparr>input := Some inp\<rparr>" inp "map fst ticks"]
      assms(1,2)
    by (simp add: newPlayer_def)
qed

theorem C3_score_stays_zero_witness:
  "up \<lparr> up = True, down = False, left = False, right = False \<rparr> \<and>
   \<not> down \<lparr> up = True, down = False, left = False, right = False \<rparr> \<and>
   obstacles exampleRace = [] \<and> boostPads exampleRace = [] \<and> gameLoop exampleRace \<and>
   \<not> gameEnded exampleRace \<and> gameDuration exampleRace = 30000 \<and>
   \<not> obstacleRoll quietRandom < 0.01 \<and> \<not> padRoll quietRandom < 0.005 \<and>
   22 - gameStartTime exampleRace < 30000 \<and> 38 - gameStartTime exampleRace < 30000 \<and>
   (0::nat) < length (players exampleRace) \<and>
   snd (players exampleRace ! 0) =
     (newPlayer 0 ''a'' ''Al'' 1)\<lparr>input := Some \<lparr> up = True, down = False, left = False, right = False \<rparr>\<rparr> \<and>
   score (snd (players (runGame [(22, quietRandom), (38, quietRandom)] exampleRace) ! 0)) = 0"
  using C3_score_stays_zero
    [of "\<lparr> up = True, down = False, left = False, right = False \<rparr>" exampleRace
        "[(22, quietRandom), (38, quietRandom)]" 0 0 "''a''" "''Al''" 1]
  by (simp add: exampleRace_eval quietRandom_def del: runGame.simps)

section \<open>The multiplier cap and the streak decay\<close>

text \<open>The two places that raise the streak cap the multiplier at 5.\<close>

lemma survivalAward_capped: "multiplier (survivalAward now p) \<le> 5"
  by (simp add: survivalAward_def Let_def)

lemma collidePad_capped: "multiplier p \<le> 5 \<Longrightarrow> multiplier (fst (collidePad now p pad)) \<le> 5"
  by (simp add: collidePad_def Let_def)

lemma survivalAward_streak: "streak (survivalAward now p) = streak p + 1"
  by (simp add: survivalAward_def Let_def)

lemma survivalAward_run_streak: "streak ((survivalAward now ^^ n) p) = streak p + int n"
  by (induction n) (simp_all add: survivalAward_streak)

lemma survivalAward_run_multiplier:
  "0 < n \<Longrightarrow> multiplier ((survivalAward now ^^ n) p) = min 5 (1 + of_int (streak p + int n) * 0.2)"
  by (cases n)
    (simp_all add: survivalAward_def Let_def survivalAward_run_streak add.commute add.left_commute)

lemma survivalAward_run_time:
  "0 < n \<Longrightarrow> lastObstacleTime ((survivalAward now ^^ n) p) = now"
  by (cases n) (simp_all add: survivalAward_def Let_def)

lemma survivalAward_input:
  "input (survivalAward now p) = input p" "comboTimer (survivalAward now p) = comboTimer p"
  by (simp_all add: survivalAward_def Let_def)

lemma survivalAward_run_input:
  "input ((survivalAward now ^^ n) p) = input p"
  "comboTimer ((survivalAward now ^^ n) p) = comboTimer p"
  by (induction n) (simp_all add: survivalAward_input)

lemma streak_stages:
  "streak (boostTiming q) = streak q" "streak (accelerate inp q) = streak q"
  "streak (steer inp q) = streak q" "streak (move q) = streak q"
  "streak (fst (speedScore q)) = streak q" "streak (comboDecay q) = streak q"
  by (simp_all add: boostTiming_def accelerate_def steer_def move_def speedScore_def
        comboDecay_def Let_def)

lemma lastObstacleTime_stages:
  "lastObstacleTime (boostTiming q) = lastObstacleTime q"
  "lastObstacleTime (accelerate inp q) = lastObstacleTime q"
  "lastObstacleTime (steer inp q) = lastObstacleTime q"
  "lastObstacleTime (move q) = lastObstacleTime q"
  "lastObstacleTime (fst (speedScore q)) = lastObstacleTime q"
  "lastObstacleTime (comboDecay q) = lastObstacleTime q"
  by (simp_all add: boostTiming_def accelerate_def steer_def move_def speedScore_def
        comboDecay_def Let_def)

lemma comboTimer_stages:
  "comboTimer (boostTiming q) = comboTimer q" "comboTimer (accelerate inp q) = comboTimer q"
  "comboTimer (steer inp q) = comboTimer q" "comboTimer (move q) = comboTimer q"
  "comboTimer (fst (speedScore q)) = comboTimer q"
  by (simp_all add: boostTiming_def accelerate_def steer_def move_def speedScore_def Let_def)

lemma comboDecay_idle: "comboTimer q = 0 \<Longrightarrow> comboDecay q = q"
  by (simp add: comboDecay_def)

lemma streakDecay_fires:
  "now - lastObstacleTime q > 3000 \<Longrightarrow> 0 < streak q \<Longrightarrow>
   multiplier (streakDecay now q) = 1 + of_int (streak q - 1) * 0.2 \<and>
   streak (streakDecay now q) = streak q - 1"
  by (simp add: streakDecay_def Let_def)

lemma updatePlayer_decay:
  assumes "input p = Some inp" and "comboTimer p = 0"
    and "now - lastObstacleTime p > 3000" and "0 < streak p"
  shows "multiplier (fst (updatePlayer now p)) = 1 + of_int (streak p - 1) * 0.2"
proof -
  let ?q = "fst (speedScore (move (steer inp (accelerate inp (boostTiming p)))))"
  have c: "comboDecay ?q = ?q"
    by (rule comboDecay_idle) (simp add: comboTimer_stages assms(2))
  have "now - lastObstacleTime ?q > 3000" "0 < streak ?q"
    using assms(3,4) by (simp_all add: lastObstacleTime_stages streak_stages)
  from streakDecay_fires[OF this] have
    "multiplier (streakDecay now ?q) = 1 + of_int (streak ?q - 1) * 0.2" by simp
  then show ?thesis
    using assms(1) by (simp add: updatePlayer_Some c streak_stages)
qed

text \<open>
  C1: the multiplier stays in [1, 5] and the streak at or above 0 on every tick. The
  streak decay of \<^verbatim>\<open>updatePlayer\<close> recomputes the multiplier as \<^verbatim>\<open>1 + streak * 0.2\<close>
  without the cap that the other two recomputations have. A fresh player past whom 22
  obstacles have gone has streak 22 and multiplier 5; the first tick more than 3000 ms
  after the last of them leaves streak 21 and multiplier 5.2.
\<close>

theorem C1_streak_decay_exceeds_cap:
  "streak ((survivalAward 1000 ^^ 22) (newPlayer 0 ''a'' ''A'' 1)) = 22 \<and>
   multiplier ((survivalAward 1000 ^^ 22) (newPlayer 0 ''a'' ''A'' 1)) = 5 \<and>
   streak (fst (updatePlayer 4001 ((survivalAward 1000 ^^ 22) (newPlayer 0 ''a'' ''A'' 1)))) = 21 \<and>
   multiplier (fst (updatePlayer 4001 ((survivalAward 1000 ^^ 22) (newPlayer 0 ''a'' ''A'' 1)))) = 5.2"
proof -
  let ?p = "(survivalAward 1000 ^^ 22) (newPlayer 0 ''a'' ''A'' 1)"
  have s: "streak ?p = 22"
    by (simp add: survivalAward_run_streak newPlayer_def)
  have m: "multiplier ?p = 5"
    by (simp add: survivalAward_run_multiplier newPlayer_def)
  have i: "input ?p = Some \<lparr> up = False, down = False, left = False, right = False \<rparr>"
    by (simp add: survivalAward_run_input newPlayer_def)
  have c: "comboTimer ?p = 0"
    by (simp add: survivalAward_run_input newPlayer_def)
  have t: "4001 - lastObstacleTime ?p > 3000"
    by (simp add: survivalAward_run_time)
  have "multiplier (fst (updatePlayer 4001 ?p)) = 5.2"
    using updatePlayer_decay[OF i c t] s by simp
  moreover have "streak (fst (updatePlayer 4001 ?p)) = 21"
    using i t s c
    by (simp add: updatePlayer_Some comboDecay_idle comboTimer_stages streakDecay_def Let_def
          lastObstacleTime_stages streak_stages)
  ultimately show ?thesis using s m by simp
qed

section \<open>Restart\<close>

lemma restartPlayer_resets:
  "pl_x (restartPlayer p) = 200 \<and> pl_y (restartPlayer p) = 500 \<and> speed (restartPlayer p) = 0 \<and>
   angle (restartPlayer p) = 0 \<and> velocityX (restartPlayer p) = 0 \<and> velocityY (restartPlayer p) = 0 \<and>
   score (restartPlayer p) = 0 \<and> streak (restartPlayer p) = 0 \<and> multiplier (restartPlayer p) = 1 \<and>
   \<not> boosting (restartPlayer p) \<and> boostTime (restartPlayer p) = 0"
  by (simp add: restartPlayer_def)

lemma restartPlayer_maxSpeed: "maxSpeed (restartPlayer p) = maxSpeed p"
  by (simp add: restartPlayer_def)

lemma restartGame_running:
  "gameStarted (restartGame now l) \<and> \<not> gameEnded (restartGame now l) \<and> gameLoop (restartGame now l) \<and>
   players (restartGame now l) = map (apsnd restartPlayer) (players l)"
  by (simp add: restartGame_def startGame_def)

text \<open>
  C5: a restart from the finished phase puts every seat back to its construction values,
  \<^verbatim>\<open>maxSpeed = 8\<close> included, and the lobby runs again. \<^verbatim>\<open>restartGame\<close> clears
  \<^verbatim>\<open>boosting\<close> and \<^verbatim>\<open>boostTime\<close> and leaves \<^verbatim>\<open>maxSpeed\<close> alone. The first seat below
  took a boost pad one second before the end of the match; after the restart it is not
  boosting and its \<^verbatim>\<open>maxSpeed\<close> is still 15, while a new player has 8.
\<close>

theorem C5_restart_keeps_boosted_maxSpeed:
  "maxSpeed (fst (collidePad 29000 (newPlayer 0 ''a'' ''A'' 1)
      \<lparr> pad_id = 1, pad_x = 190, pad_y = 510, pad_width = 60, pad_height = 30, pad_speed = 2,
        used = False, pad_playerNum = 1 \<rparr>)) = 15 \<and>
   map (\<lambda>(k, p). (boosting p, boostTime p, maxSpeed p))
     (players (restartGame 31000
        \<lparr> lb_id = ''L'', lb_name = ''Lobby'',
          players = [(''a'', fst (collidePad 29000 (newPlayer 0 ''a'' ''A'' 1)
                       \<lparr> pad_id = 1, pad_x = 190, pad_y = 510, pad_width = 60, pad_height = 30,
                         pad_speed = 2, used = False, pad_playerNum = 1 \<rparr>)),
                     (''b'', newPlayer 0 ''b'' ''B'' 2)],
          gameStarted = True, obstacles = [], boostPads = [], roadOffset = 0,
          timeRemaining = Some 0, gameLoop = False, createdAt = 0, gameStartTime = 0,
          gameDuration = 30000, gameEnded = True \<rparr>))
   = [(False, 0, 15), (False, 0, 8)] \<and>
   maxSpeed (newPlayer 31000 ''a'' ''A'' 1) = 8"
  by (simp add: restartGame_def startGame_def restartPlayer_def collidePad_def newPlayer_def Let_def)

section \<open>Direct collisions\<close>

lemma updateObstacles_fst:
  "fst (updateObstacles now obs ps) = filter (\<lambda>ob. ob_y ob \<le> 650) (map advanceObstacle obs)"
  by (induction obs arbitrary: ps) (simp_all add: Let_def case_prod_beta)

lemma collideObstacle_other:
  "ob_playerNum ob \<noteq> playerNum p \<Longrightarrow> collideObstacle p ob = (p, ob, [])"
  by (simp add: collideObstacle_def)

lemma collideObstacle_hit:
  assumes "ob_playerNum ob = playerNum p" and "overlapsObstacle p ob"
  shows "collideObstacle p ob =
    (p\<lparr>speed := speed p * 0.3, velocityX := velocityX p * (- 0.5), velocityY := velocityY p * (- 0.5),
       score := score p + (- 50 - of_int (streak p) * 5), streak := 0, multiplier := 1,
       nearMissCount := 0\<rparr>, ob\<lparr>ob_y := 700\<rparr>, [])"
  using assms by (simp add: collideObstacle_def Let_def)

lemma relocated_pruned:
  "2 \<le> ob_speed ob \<Longrightarrow> ob_y (advanceObstacle (ob\<lparr>ob_y := 700\<rparr>)) > 650"
  by (simp add: advanceObstacle_def)

lemma createObstaclesFrom_speed:
  "\<forall>i. 0 \<le> rnd i \<Longrightarrow> ob \<in> set (createObstaclesFrom now rnd i ps) \<Longrightarrow> 2 \<le> ob_speed ob"
  by (induction ps arbitrary: i) auto

lemma modifyFirst_split:
  "\<forall>kv \<in> set before. \<not> P (snd kv) \<Longrightarrow> P v \<Longrightarrow>
   modifyFirst P f (before @ (k, v) # after) = before @ (k, f v) # after"
  by (induction before) auto

section \<open>The steps of a tick\<close>

lemma updateGame_stages:
  "tickRuns now l \<Longrightarrow>
   fst (updateGame now rnd l) = fst (afterObstacles now (obstacleStage now (beforeObstacles now rnd l)))"
  by (auto simp: updateGame_def tickRuns_def timeLeft_def beforeObstacles_def obstacleStage_def
        afterObstacles_def spawnedObstacles_def Let_def case_prod_beta)

lemma updateGame_expired:
  "\<not> tickRuns now l \<Longrightarrow>
   updateGame now rnd l = (finishGame (l\<lparr>timeRemaining := Some (timeLeft now l)\<rparr>), [])"
  by (auto simp: updateGame_def tickRuns_def timeLeft_def Let_def)

lemma updateGame_keeps:
  "tickRuns now l \<Longrightarrow>
   gameLoop (fst (updateGame now rnd l)) = gameLoop l \<and>
   gameEnded (fst (updateGame now rnd l)) = gameEnded l \<and>
   gameDuration (fst (updateGame now rnd l)) = gameDuration l \<and>
   gameStartTime (fst (updateGame now rnd l)) = gameStartTime l"
  by (auto simp: updateGame_def tickRuns_def timeLeft_def Let_def case_prod_beta)

lemma obstacles_beforeObstacles:
  "obstacles (beforeObstacles now rnd l) = obstacles l @ spawnedObstacles now rnd l"
  by (simp add: beforeObstacles_def Let_def)

lemma players_beforeObstacles:
  "players (beforeObstacles now rnd l) = fst (updatePlayers now (players l))"
  by (simp add: beforeObstacles_def Let_def)

lemma collideObstacle_id: "ob_id (fst (snd (collideObstacle p ob))) = ob_id ob"
proof (cases "ob_playerNum ob = playerNum p \<and> overlapsObstacle p ob")
  case True
  then show ?thesis by (simp add: collideObstacle_hit)
next
  case False
  show ?thesis
  proof (cases "nearMissCount p + 1 \<ge> 2")
    case True
    then show ?thesis using False by (simp add: collideObstacle_def Let_def)
  next
    case n: False
    then show ?thesis using False by (simp add: collideObstacle_def Let_def)
  qed
qed

lemma checkObstacles_ids: "map ob_id (fst (snd (checkObstacles p obs))) = map ob_id obs"
  by (induction obs arbitrary: p) (simp_all add: case_prod_beta Let_def collideObstacle_id)

lemma checkCollisions_ids:
  "map ob_id (fst (snd (checkCollisions now ps obs pads))) = map ob_id obs"
  by (induction ps arbitrary: obs pads) (auto simp: case_prod_beta Let_def checkObstacles_ids)

lemma afterObstacles_ids:
  "map ob_id (obstacles (fst (afterObstacles now m))) = map ob_id (obstacles m)"
  by (simp add: afterObstacles_def Let_def case_prod_beta checkCollisions_ids)

lemma obstacleStage_obstacles:
  "obstacles (obstacleStage now m) = filter (\<lambda>ob. ob_y ob \<le> 650) (map advanceObstacle (obstacles m))"
  using updateObstacles_fst[of now "obstacles m" "players m"]
  by (simp add: obstacleStage_def case_prod_beta)

lemma createObstaclesFrom_ids:
  "x \<in> set (createObstaclesFrom now rnd i ps) \<Longrightarrow> \<exists>k. ob_id x = of_int now + rnd k"
  by (induction ps arbitrary: i) auto

lemma tick_prunes:
  assumes run: "tickRuns now l"
    and ids: "\<forall>x \<in> set (obstacles l). ob_id x = i \<longrightarrow> ob_y x = 700 \<and> 2 \<le> ob_speed x"
    and fresh: "\<forall>k. of_int now + obstacleDraws rnd k \<noteq> i"
  shows "i \<notin> ob_id ` set (obstacles (fst (updateGame now rnd l)))"
proof
  assume h: "i \<in> ob_id ` set (obstacles (fst (updateGame now rnd l)))"
  have "ob_id ` set (obstacles (fst (updateGame now rnd l)))
      = set (map ob_id (obstacles (fst (afterObstacles now (obstacleStage now (beforeObstacles now rnd l))))))"
    by (simp add: updateGame_stages[OF run])
  also have "\<dots> = set (map ob_id (obstacles (obstacleStage now (beforeObstacles now rnd l))))"
    by (simp only: afterObstacles_ids)
  finally have "i \<in> ob_id ` set (obstacles (obstacleStage now (beforeObstacles now rnd l)))"
    using h by simp
  then obtain x where x: "x \<in> set (obstacles l @ spawnedObstacles now rnd l)"
    "ob_y (advanceObstacle x) \<le> 650" "ob_id (advanceObstacle x) = i"
    by (auto simp: obstacleStage_obstacles obstacles_beforeObstacles)
  have id: "ob_id x = i" using x(3) by (simp add: advanceObstacle_def)
  show False
  proof (cases "x \<in> set (obstacles l)")
    case True
    with ids id have "ob_y x = 700" "2 \<le> ob_speed x" by auto
    then show False using x(2) by (simp add: advanceObstacle_def)
  next
    case False
    with x(1) have "x \<in> set (spawnedObstacles now rnd l)" by simp
    then have "x \<in> set (createObstaclesFrom now (obstacleDraws rnd) 0
        (map snd (fst (updatePlayers now (players l)))))"
      by (simp add: spawnedObstacles_def split: if_splits)
    from createObstaclesFrom_ids[OF this]
    obtain k where "ob_id x = of_int now + obstacleDraws rnd k" by blast
    with fresh id show False by auto
  qed
qed




section \<open>The example collision\<close>

text \<open>
  In \<open>exampleHit\<close> a tick that runs moves the obstacle to \<open>y = 480\<close>, where it still
  overlaps the first player; the collision check costs that player 50 points and moves
  the obstacle to \<open>y = 700\<close>.
\<close>

lemma idle_update:
  "t - t0 > 3000 \<Longrightarrow> updatePlayer t (newPlayer t0 sid nm n) =
   ((newPlayer t0 sid nm n)\<lparr>lastObstacleTime := t, speedBonusTimer := 1\<rparr>, [])"
  by (simp add: updatePlayer_def boostTiming_def accelerate_def targetSpeed_def steer_def move_def
        speedScore_def speedPoints_def comboDecay_def streakDecay_def newPlayer_def Let_def)

lemma exampleHit_fields:
  "gameLoop exampleHit \<and> \<not> gameEnded exampleHit \<and> gameDuration exampleHit = 30000 \<and>
   gameStartTime exampleHit = 5 \<and> obstacles exampleHit = [hitObstacle] \<and> boostPads exampleHit = [] \<and>
   players exampleHit = [(''a'', newPlayer 0 ''a'' ''Al'' 1), (''b'', newPlayer 5 ''b'' ''Bob'' 2)]"
  by (simp add: exampleHit_def exampleLobby_eval)

lemma exampleHit_tick:
  assumes t: "3005 < t" and r: "tickRuns t exampleHit"
  shows "fst (updateGame t quietRandom exampleHit) =
     exampleHit\<lparr>timeRemaining := Some (timeLeft t exampleHit),
       players := [(''a'', (newPlayer 0 ''a'' ''Al'' 1)\<lparr>score := - 50, lastObstacleTime := t, speedBonusTimer := 1\<rparr>),
                   (''b'', (newPlayer 5 ''b'' ''Bob'' 2)\<lparr>lastObstacleTime := t, speedBonusTimer := 1\<rparr>)],
       obstacles := [hitObstacle\<lparr>ob_y := 700\<rparr>]\<rparr>"
proof -
  let ?a = "(newPlayer 0 ''a'' ''Al'' 1)\<lparr>lastObstacleTime := t, speedBonusTimer := 1\<rparr>"
  let ?b = "(newPlayer 5 ''b'' ''Bob'' 2)\<lparr>lastObstacleTime := t, speedBonusTimer := 1\<rparr>"
  let ?o = "hitObstacle\<lparr>ob_y := 480\<rparr>"
  have b: "beforeObstacles t quietRandom exampleHit =
      exampleHit\<lparr>timeRemaining := Some (timeLeft t exampleHit), players := [(''a'', ?a), (''b'', ?b)]\<rparr>"
    using t by (simp add: beforeObstacles_def spawnedObstacles_def quietRandom_def exampleHit_fields
        idle_update Let_def)
  have o: "obstacleStage t (beforeObstacles t quietRandom exampleHit) =
      exampleHit\<lparr>timeRemaining := Some (timeLeft t exampleHit), players := [(''a'', ?a), (''b'', ?b)],
        obstacles := [?o]\<rparr>"
    unfolding b by (simp add: obstacleStage_def exampleHit_fields advanceObstacle_def hitObstacle_def)
  have sa: "ob_playerNum ?o = playerNum ?a" by (simp add: hitObstacle_def newPlayer_def)
  have oa: "overlapsObstacle ?a ?o" by (simp add: overlapsObstacle_def hitObstacle_def newPlayer_def)
  have ca: "collideObstacle ?a ?o =
      ((newPlayer 0 ''a'' ''Al'' 1)\<lparr>score := - 50, lastObstacleTime := t, speedBonusTimer := 1\<rparr>,
       hitObstacle\<lparr>ob_y := 700\<rparr>, [])"
    unfolding collideObstacle_hit[OF sa oa] by (simp add: newPlayer_def hitObstacle_def)
  have cb: "collideObstacle ?b (hitObstacle\<lparr>ob_y := 700\<rparr>) = (?b, hitObstacle\<lparr>ob_y := 700\<rparr>, [])"
    by (rule collideObstacle_other) (simp add: hitObstacle_def newPlayer_def)
  have a: "fst (afterObstacles t (obstacleStage t (beforeObstacles t quietRandom exampleHit))) =
      exampleHit\<lparr>timeRemaining := Some (timeLeft t exampleHit),
       players := [(''a'', (newPlayer 0 ''a'' ''Al'' 1)\<lparr>score := - 50, lastObstacleTime := t, speedBonusTimer := 1\<rparr>),
                   (''b'', ?b)],
       obstacles := [hitObstacle\<lparr>ob_y := 700\<rparr>]\<rparr>"
    unfolding o by (simp add: afterObstacles_def updateBoostPads_def exampleHit_fields ca cb del: One_nat_def)
  show ?thesis by (simp only: updateGame_stages[OF r] a)
qed

lemma exampleHit_runs: "tickRuns 30000 exampleHit" "tickRuns 4000 exampleHit"
  by (simp_all add: tickRuns_def timeLeft_def exampleHit_fields)


lemma exampleHit_expired:
  "\<not> tickRuns 30017 (fst (updateGame 30000 quietRandom exampleHit))"
  by (simp add: exampleHit_tick[OF _ exampleHit_runs(1)] tickRuns_def timeLeft_def exampleHit_fields)

lemma exampleHit_then_runs:
  "tickRuns 4017 (fst (updateGame 4000 quietRandom exampleHit))"
  by (simp add: exampleHit_tick[OF _ exampleHit_runs(2)] tickRuns_def timeLeft_def exampleHit_fields)

lemma exampleHit_last_ticks:
  "runGame [(30000, quietRandom)] exampleHit = fst (updateGame 30000 quietRandom exampleHit) \<and>
   runGame [(30000, quietRandom), (30017, quietRandom)] exampleHit =
     finishGame ((fst (updateGame 30000 quietRandom exampleHit))
        \<lparr>timeRemaining := Some (timeLeft 30017 (fst (updateGame 30000 quietRandom exampleHit)))\<rparr>)"
  using updateGame_keeps[OF exampleHit_runs(1), of quietRandom]
  by (simp add: exampleHit_fields updateGame_expired[OF exampleHit_expired])



section \<open>A direct collision and the tick after it\<close>

text \<open>
  C4, as the specification has it: after a direct collision the obstacle is gone from the
  obstacle list of the next tick. In \<open>exampleHit\<close> the collision happens in the tick at
  30000, five milliseconds before the 30 seconds of the match are over. The next tick, at
  30017, finds the timer expired and returns before \<^verbatim>\<open>updateObstacles\<close>: the obstacle
  is still in the list.
\<close>

theorem C4_next_tick_counterexample:
  "ob_playerNum hitObstacle = playerNum (snd (players exampleHit ! 0)) \<and>
   overlapsObstacle (snd (players exampleHit ! 0)) hitObstacle \<and>
   score (snd (players (runGame [(30000, quietRandom)] exampleHit) ! 0))
     - score (snd (players exampleHit ! 0)) = - 50 \<and>
   obstacles (runGame [(30000, quietRandom)] exampleHit) = [hitObstacle\<lparr>ob_y := 700\<rparr>] \<and>
   obstacles (runGame [(30000, quietRandom), (30017, quietRandom)] exampleHit) = [hitObstacle\<lparr>ob_y := 700\<rparr>]"
  by (simp add: exampleHit_last_ticks exampleHit_tick[OF _ exampleHit_runs(1)] finishGame_def
        exampleHit_fields del: runGame.simps)
     (simp add: overlapsObstacle_def hitObstacle_def newPlayer_def)

text \<open>
  C4, amended: when \<^verbatim>\<open>checkCollisions\<close> checks a player against an obstacle of its seat
  number and their boxes overlap, that check changes the score by exactly
  \<open>-(50 + streak * 5)\<close>, with the streak of that moment, sets streak to 0, multiplier
  to 1 and the near-miss counter to 0, and moves the obstacle to \<open>y = 700\<close>. A next tick
  that runs drops the obstacle: no obstacle with its id is in the list after that tick,
  where the id is that of no other obstacle, old or spawned. A next tick that finds the
  timer expired leaves the list as it is. Every obstacle is made with a speed of at
  least 2 (\<open>createObstaclesFrom_speed\<close>).
\<close>

theorem C4_collision_penalty:
  assumes "ob_playerNum ob = playerNum p" and "overlapsObstacle p ob" and "2 \<le> ob_speed ob"
    and "\<forall>x \<in> set (obstacles l). ob_id x = ob_id ob \<longrightarrow> x = ob\<lparr>ob_y := 700\<rparr>"
    and "\<forall>k. of_int now + obstacleDraws rnd k \<noteq> ob_id ob"
  shows "(case collideObstacle p ob of (p', ob', evs) \<Rightarrow>
            score p' - score p = - (50 + of_int (streak p) * 5) \<and>
            streak p' = 0 \<and> multiplier p' = 1 \<and> nearMissCount p' = 0 \<and> ob' = ob\<lparr>ob_y := 700\<rparr>) \<and>
         (tickRuns now l \<longrightarrow> ob_id ob \<notin> ob_id ` set (obstacles (fst (updateGame now rnd l)))) \<and>
         (\<not> tickRuns now l \<longrightarrow> obstacles (fst (updateGame now rnd l)) = obstacles l)"
proof -
  have a: "case collideObstacle p ob of (p', ob', evs) \<Rightarrow>
            score p' - score p = - (50 + of_int (streak p) * 5) \<and>
            streak p' = 0 \<and> multiplier p' = 1 \<and> nearMissCount p' = 0 \<and> ob' = ob\<lparr>ob_y := 700\<rparr>"
    by (simp add: collideObstacle_hit[OF assms(1,2)])
  have "\<forall>x \<in> set (obstacles l). ob_id x = ob_id ob \<longrightarrow> ob_y x = 700 \<and> 2 \<le> ob_speed x"
    using assms(3,4) by auto
  then have b: "tickRuns now l \<longrightarrow> ob_id ob \<notin> ob_id ` set (obstacles (fst (updateGame now rnd l)))"
    using tick_prunes[of now l "ob_id ob" rnd] assms(5) by blast
  have c: "\<not> tickRuns now l \<longrightarrow> obstacles (fst (updateGame now rnd l)) = obstacles l"
    by (simp add: updateGame_expired finishGame_def)
  show ?thesis using a b c by blast
qed

theorem C4_collision_penalty_witness:
  "ob_playerNum (advanceObstacle hitObstacle) = playerNum (newPlayer 0 ''a'' ''Al'' 1) \<and>
   overlapsObstacle (newPlayer 0 ''a'' ''Al'' 1) (advanceObstacle hitObstacle) \<and>
   2 \<le> ob_speed (advanceObstacle hitObstacle) \<and>
   obstacles (fst (updateGame 4000 quietRandom exampleHit)) = [(advanceObstacle hitObstacle)\<lparr>ob_y := 700\<rparr>] \<and>
   tickRuns 4017 (fst (updateGame 4000 quietRandom exampleHit)) \<and>
   score (fst (collideObstacle (newPlayer 0 ''a'' ''Al'' 1) (advanceObstacle hitObstacle))) = - 50 \<and>
   ob_id (advanceObstacle hitObstacle)
     \<notin> set (map ob_id (obstacles (fst (updateGame 4017 quietRandom
                                       (fst (updateGame 4000 quietRandom exampleHit))))))"
proof -
  let ?p = "newPlayer 0 ''a'' ''Al'' 1"
  let ?ob = "advanceObstacle hitObstacle"
  let ?l = "fst (updateGame 4000 quietRandom exampleHit)"
  have s: "ob_playerNum ?ob = playerNum ?p"
    by (simp add: advanceObstacle_def hitObstacle_def newPlayer_def)
  have o: "overlapsObstacle ?p ?ob"
    by (simp add: overlapsObstacle_def advanceObstacle_def hitObstacle_def newPlayer_def)
  have v: "2 \<le> ob_speed ?ob"
    by (simp add: advanceObstacle_def hitObstacle_def)
  have l: "obstacles ?l = [?ob\<lparr>ob_y := 700\<rparr>]"
    by (simp add: exampleHit_tick[OF _ exampleHit_runs(2)] advanceObstacle_def hitObstacle_def)
  have i: "\<forall>x \<in> set (obstacles ?l). ob_id x = ob_id ?ob \<longrightarrow> x = ?ob\<lparr>ob_y := 700\<rparr>"
    by (simp add: l)
  have f: "\<forall>k. of_int 4017 + obstacleDraws quietRandom k \<noteq> ob_id ?ob"
    by (simp add: quietRandom_def advanceObstacle_def hitObstacle_def)
  have sc: "score ?p = 0" "streak ?p = 0"
    by (simp_all add: newPlayer_def)
  show ?thesis
    using C4_collision_penalty[OF s o v i f] s o v l exampleHit_then_runs sc
    by (simp add: case_prod_beta)
qed




section \<open>Near misses\<close>














section \<open>Seat numbers\<close>

lemma createObstaclesFrom_seats:
  "ob \<in> set (createObstaclesFrom now rnd i ps) \<Longrightarrow> ob_playerNum ob \<in> playerNum ` set ps"
  by (induction ps arbitrary: i) auto

text \<open>
  C10: seat numbers can repeat. In a lobby of two players whose second has seat 2, let
  the first leave and another socket join: the newcomer gets seat \<open>1 + 1 = 2\<close>, both
  players of the lobby now have seat 2, and every obstacle made for the lobby carries the
  seat number of both.
\<close>

theorem C10_seat_numbers_repeat:
  assumes "players l = [(a, pa), (b, pb)]" and "a \<noteq> b" and "c \<noteq> b" and "playerNum pb = 2"
  shows "case removePlayer a l socks of (del, l1, socks1) \<Rightarrow>
           (case addPlayer now c cname l1 socks1 of (ok, l2, socks2) \<Rightarrow>
              ok \<and> map fst (players l2) = [b, c] \<and>
              map (\<lambda>kv. playerNum (snd kv)) (players l2) = [2, 2] \<and>
              (\<forall>ob \<in> set (createObstaclesFrom now' rnd 0 (map snd (players l2))).
                 \<forall>kv \<in> set (players l2). ob_playerNum ob = playerNum (snd kv)))"
proof -
  obtain del l1 socks1 where r: "removePlayer a l socks = (del, l1, socks1)"
    by (cases "removePlayer a l socks") auto
  have p1: "map fst (players l1) = [b] \<and> map (\<lambda>kv. playerNum (snd kv)) (players l1) = [2]"
    using r assms
    by (auto simp: removePlayer_def deleteProp_def endGame_def endGamePlayer_def Let_def
          split: if_splits)
  obtain ok l2 socks2 where ad: "addPlayer now c cname l1 socks1 = (ok, l2, socks2)"
    by (cases "addPlayer now c cname l1 socks1") auto
  from p1 obtain pb' where l1: "players l1 = [(b, pb')]" "playerNum pb' = 2"
    by (cases "players l1") auto
  have p2: "ok \<and> players l2 = [(b, pb'), (c, newPlayer now c cname 2)]"
    using ad l1 assms(3)
    by (auto simp: addPlayer_def Let_def startGame_def numeral_2_eq_2 split: if_splits)
  have seats: "playerNum ` set (map snd (players l2)) = {2}"
    using p2 l1 by (simp add: newPlayer_def)
  have obs: "\<forall>ob \<in> set (createObstaclesFrom now' rnd 0 (map snd (players l2))).
                 \<forall>kv \<in> set (players l2). ob_playerNum ob = playerNum (snd kv)"
    using createObstaclesFrom_seats[of _ now' rnd 0 "map snd (players l2)"] seats by force
  show ?thesis
    using p2 l1 obs by (simp add: r ad newPlayer_def)
qed


theorem C10_seat_numbers_repeat_witness:
  "players exampleLobby = [(''a'', newPlayer 0 ''a'' ''Al'' 1), (''b'', newPlayer 5 ''b'' ''Bob'' 2)] \<and>
   ''a'' \<noteq> ''b'' \<and> ''c'' \<noteq> ''b'' \<and> playerNum (newPlayer 5 ''b'' ''Bob'' 2) = 2 \<and>
   (case removePlayer ''a'' exampleLobby (playerSockets exampleServer) of
      (del, l1, socks1) \<Rightarrow>
        (case addPlayer 9 ''c'' ''Cy'' l1 socks1 of
           (ok, l2, socks2) \<Rightarrow>
             ok \<and> map fst (players l2) = [''b'', ''c''] \<and>
             map (\<lambda>kv. playerNum (snd kv)) (players l2) = [2, 2]))"
proof -
  have p: "players exampleLobby = [(''a'', newPlayer 0 ''a'' ''Al'' 1), (''b'', newPlayer 5 ''b'' ''Bob'' 2)]"
    by (simp add: exampleLobby_eval)
  have n: "playerNum (newPlayer 5 ''b'' ''Bob'' 2) = 2"
    by (simp add: newPlayer_def)
  show ?thesis
    using C10_seat_numbers_repeat[where c = "''c''" and socks = "playerSockets exampleServer"
        and now = 9 and cname = "''Cy''", OF p _ _ n] p n
    by (simp add: case_prod_beta)
qed

section \<open>Seats of a lobby\<close>

lemma length_setProp_le: "length (setProp k v kvs) \<le> Suc (length kvs)"
  by (induction k v kvs rule: setProp.induct) auto

lemma setProp_nonempty: "setProp k v kvs \<noteq> []"
  by (induction k v kvs rule: setProp.induct) auto

lemma length_setProp_present: "map_of kvs k = Some v' \<Longrightarrow> length (setProp k v kvs) = length kvs"
  by (induction k v kvs rule: setProp.induct) (auto split: if_splits)

lemma set_setProp: "set (setProp k v kvs) \<subseteq> insert (k, v) (set kvs)"
  by (induction k v kvs rule: setProp.induct) auto

lemma set_deleteProp: "set (deleteProp k kvs) \<subseteq> set kvs"
  by (auto simp: deleteProp_def)

lemma length_deleteProp: "length (deleteProp k kvs) \<le> length kvs"
  by (simp add: deleteProp_def)

lemma length_updatePlayers: "length (fst (updatePlayers now ps)) = length ps"
  by (induction now ps rule: updatePlayers.induct) (auto simp: Let_def split: prod.splits)

lemma length_modifyFirst: "length (modifyFirst P f kvs) = length kvs"
  by (induction P f kvs rule: modifyFirst.induct) auto

lemma length_updateObstacles: "length (snd (updateObstacles now obs ps)) = length ps"
  by (induction obs arbitrary: ps) (simp_all add: Let_def case_prod_beta length_modifyFirst)

lemma length_checkCollisions: "length (fst (checkCollisions now ps obs pads)) = length ps"
  by (induction now ps obs pads rule: checkCollisions.induct) (auto simp: Let_def split: prod.splits)

lemma length_updateGame: "length (players (fst (updateGame now rnd l))) = length (players l)"
  by (simp add: updateGame_def Let_def case_prod_beta finishGame_def length_checkCollisions
        length_updateObstacles length_updatePlayers)

lemma addPlayer_seats:
  "length (players l) \<le> 2 \<Longrightarrow>
   players (fst (snd (addPlayer now sid nm l socks))) \<noteq> [] \<and>
   length (players (fst (snd (addPlayer now sid nm l socks)))) \<le> 2"
  using length_setProp_le[of sid "newPlayer now sid nm (length (players l) + 1)" "players l"]
    setProp_nonempty[of sid "newPlayer now sid nm (length (players l) + 1)" "players l"]
  by (auto simp: addPlayer_def Let_def startGame_def)

lemma removePlayer_seats:
  "length (players l) \<le> 2 \<Longrightarrow> length (players (fst (snd (removePlayer sid l socks)))) \<le> 2"
  using length_deleteProp[of sid "players l"]
  by (auto simp: removePlayer_def Let_def endGame_def)

lemma removePlayer_keep:
  "\<not> fst (removePlayer sid l socks) \<Longrightarrow> players (fst (snd (removePlayer sid l socks))) \<noteq> []"
  by (auto simp: removePlayer_def Let_def endGame_def split: if_splits)

lemma seated_setProp:
  "seated s \<Longrightarrow> players l \<noteq> [] \<Longrightarrow> length (players l) \<le> 2 \<Longrightarrow>
   seated (s\<lparr>lobbies := setProp lid l (lobbies s), playerSockets := socks\<rparr>)"
  using set_setProp[of lid l "lobbies s"] by (auto simp: seated_def)

lemma seated_setProp':
  "seated s \<Longrightarrow> players l \<noteq> [] \<Longrightarrow> length (players l) \<le> 2 \<Longrightarrow>
   seated (s\<lparr>lobbies := setProp lid l (lobbies s)\<rparr>)"
  using set_setProp[of lid l "lobbies s"] by (auto simp: seated_def)

lemma seated_lookup:
  "seated s \<Longrightarrow> map_of (lobbies s) lid = Some l \<Longrightarrow> players l \<noteq> [] \<and> length (players l) \<le> 2"
  using map_of_SomeD[of "lobbies s" lid l] by (force simp: seated_def)

lemma seated_createLobby: "seated s \<Longrightarrow> seated (createLobby now sid lid lname pname s)"
  unfolding createLobby_def newLobby_def Let_def case_prod_beta
  by (rule seated_setProp) (simp_all add: addPlayer_seats)

lemma seated_joinLobby: "seated s \<Longrightarrow> seated (fst (joinLobby now sid lid pname s))"
proof (cases "map_of (lobbies s) lid")
  case None
  assume "seated s"
  then show ?thesis using None by (simp add: joinLobby_def)
next
  case (Some l)
  assume s: "seated s"
  obtain ok l' socks' where a: "addPlayer now sid pname l (playerSockets s) = (ok, l', socks')"
    by (cases "addPlayer now sid pname l (playerSockets s)") auto
  from seated_lookup[OF s Some] addPlayer_seats[of l now sid pname "playerSockets s"] a
  have "players l' \<noteq> [] \<and> length (players l') \<le> 2" by simp
  then show ?thesis
    using Some a s by (cases ok) (simp_all add: joinLobby_def seated_setProp)
qed

lemma seated_leaveLobby: "seated s \<Longrightarrow> seated (leaveLobby sid lid s)"
proof (cases "map_of (lobbies s) lid")
  case None
  assume "seated s"
  then show ?thesis using None by (simp add: leaveLobby_def)
next
  case (Some l)
  assume s: "seated s"
  obtain del l' socks' where r: "removePlayer sid l (playerSockets s) = (del, l', socks')"
    by (cases "removePlayer sid l (playerSockets s)") auto
  show ?thesis
  proof (cases del)
    case True
    have "seated (s\<lparr>lobbies := deleteProp lid (lobbies s), playerSockets := socks'\<rparr>)"
      using s set_deleteProp[of lid "lobbies s"] by (auto simp: seated_def)
    then show ?thesis using Some r True by (simp add: leaveLobby_def)
  next
    case False
    from seated_lookup[OF s Some] removePlayer_seats[of l sid "playerSockets s"]
      removePlayer_keep[of sid l "playerSockets s"] r False
    have "players l' \<noteq> [] \<and> length (players l') \<le> 2" by simp
    then show ?thesis using Some r False s by (simp add: leaveLobby_def seated_setProp)
  qed
qed

lemma seated_disconnect: "seated s \<Longrightarrow> seated (disconnect sid s)"
  by (simp add: disconnect_def seated_leaveLobby split: option.splits)

lemma seated_playerInput: "seated s \<Longrightarrow> seated (playerInput sid inp s)"
proof -
  assume s: "seated s"
  have "seated (s\<lparr>lobbies := setProp lid (l\<lparr>players := setProp sid (p\<lparr>input := inp\<rparr>) (players l)\<rparr>) (lobbies s)\<rparr>)"
    if "map_of (lobbies s) lid = Some l" and "map_of (players l) sid = Some p" for lid l p
    using seated_lookup[OF s that(1)] length_setProp_present[OF that(2), of "p\<lparr>input := inp\<rparr>"] s
    by (intro seated_setProp') (simp_all add: setProp_nonempty)
  then show ?thesis using s by (simp add: playerInput_def split: option.splits)
qed

lemma seated_restart: "seated s \<Longrightarrow> seated (restartGameHandler now sid lid s)"
proof -
  assume s: "seated s"
  have "seated (s\<lparr>lobbies := setProp lid (restartGame now l) (lobbies s)\<rparr>)"
    if "map_of (lobbies s) lid = Some l" for l
    using seated_lookup[OF s that] s
    by (intro seated_setProp') (simp_all add: restartGame_def startGame_def)
  then show ?thesis using s by (simp add: restartGameHandler_def split: option.splits)
qed

lemma seated_back: "seated s \<Longrightarrow> seated (backToLobbyFromResults sid lid s)"
proof -
  assume s: "seated s"
  have "seated (s\<lparr>lobbies := setProp lid (endGame l) (lobbies s)\<rparr>)"
    if "map_of (lobbies s) lid = Some l" for l
    using seated_lookup[OF s that] s
    by (intro seated_setProp') (simp_all add: endGame_def)
  then show ?thesis using s by (simp add: backToLobbyFromResults_def split: option.splits)
qed

lemma seated_tick: "seated s \<Longrightarrow> seated (tick now rnd lid s)"
proof -
  assume s: "seated s"
  have "seated (s\<lparr>lobbies := setProp lid (fst (updateGame now rnd l)) (lobbies s)\<rparr>)"
    if "map_of (lobbies s) lid = Some l" for l
  proof (rule seated_setProp'[OF s])
    show "players (fst (updateGame now rnd l)) \<noteq> []"
      using seated_lookup[OF s that] length_updateGame[of now rnd l]
      by (metis length_0_conv)
    show "length (players (fst (updateGame now rnd l))) \<le> 2"
      using seated_lookup[OF s that] by (simp add: length_updateGame)
  qed
  then show ?thesis using s by (simp add: tick_def split: option.splits)
qed

lemma seated_cleanup: "seated s \<Longrightarrow> seated (cleanup now s)"
  by (auto simp: seated_def cleanup_def Let_def)

lemma reachable_seated: "reachable s \<Longrightarrow> seated s"
proof (induction rule: reachable.induct)
  case r_init
  then show ?case by (simp add: seated_def)
qed (simp_all add: seated_createLobby seated_joinLobby seated_leaveLobby seated_disconnect
      seated_playerInput seated_restart seated_back seated_tick seated_cleanup)

lemma addPlayer_full:
  "length (players l) = 2 \<Longrightarrow> addPlayer now sid nm l socks = (False, l, socks)"
  by (simp add: addPlayer_def)

text \<open>
  C8: in every state of the server every lobby of the registry has 0, 1 or 2 players (in
  fact 1 or 2), and a join on a lobby that has 2 is turned down: \<^verbatim>\<open>addPlayer\<close> returns
  false and changes neither the lobby nor the socket map, and the handler answers
  \<^verbatim>\<open>lobbyFull\<close> and leaves the whole server state as it was.
\<close>

theorem C8_seat_count_and_full_lobby:
  assumes "reachable s" and "map_of (lobbies s) lobbyId = Some l"
  shows "length (players l) \<in> {0, 1, 2} \<and>
         (length (players l) = 2 \<longrightarrow>
            addPlayer now socketId playerName l (playerSockets s) = (False, l, playerSockets s) \<and>
            joinLobby now socketId lobbyId playerName s = (s, LobbyFull))"
proof -
  from seated_lookup[OF reachable_seated[OF assms(1)] assms(2)]
  have "length (players l) \<in> {0, 1, 2}" by (auto simp: le_Suc_eq numeral_2_eq_2)
  moreover have "joinLobby now socketId lobbyId playerName s = (s, LobbyFull)"
    if "length (players l) = 2"
    using assms(2) by (simp add: joinLobby_def addPlayer_full[OF that])
  ultimately show ?thesis by (simp add: addPlayer_full)
qed

theorem C8_seat_count_and_full_lobby_witness:
  "reachable exampleServer \<and> map_of (lobbies exampleServer) ''L'' = Some exampleLobby \<and>
   length (players exampleLobby) = 2 \<and>
   addPlayer 9 ''c'' ''Cy'' exampleLobby (playerSockets exampleServer)
     = (False, exampleLobby, playerSockets exampleServer) \<and>
   joinLobby 9 ''c'' ''L'' ''Cy'' exampleServer = (exampleServer, LobbyFull)"
proof -
  have m: "map_of (lobbies exampleServer) ''L'' = Some exampleLobby"
    by (simp add: exampleLobby_def exampleServer_eval)
  have n: "length (players exampleLobby) = 2"
    by (simp add: exampleLobby_eval)
  show ?thesis
    using C8_seat_count_and_full_lobby[OF exampleServer_reachable m, of 9 "''c''" "''Cy''"] m n
      exampleServer_reachable
    by simp
qed


section \<open>The periodic clean-up\<close>

text \<open>
  What the callback does to a registry, whose keys are distinct: it removes the lobbies
  that have no player and whose \<^verbatim>\<open>createdAt\<close> lies more than ten minutes back, and
  keeps the others.
\<close>

lemma cleanup_lobbies:
  assumes "distinct (map fst (lobbies s))"
  shows "lobbies (cleanup now s) = filter (\<lambda>(lid, l). \<not> cleanupDue now l) (lobbies s)"
proof -
  have "(lid \<in> set (map fst (filter (\<lambda>(lid, l). cleanupDue now l) (lobbies s)))) = cleanupDue now l"
    if "(lid, l) \<in> set (lobbies s)" for lid l
    using that assms by (force simp: distinct_map inj_on_def)
  then have "filter (\<lambda>(lid, l). lid \<notin> set (map fst (filter (\<lambda>(lid, l). cleanupDue now l) (lobbies s)))) (lobbies s)
      = filter (\<lambda>(lid, l). \<not> cleanupDue now l) (lobbies s)"
    by (intro filter_cong) auto
  then show ?thesis by (simp add: cleanup_def Let_def)
qed

text \<open>
  The handlers delete a lobby when its last player leaves, so no state of the server has
  a lobby without players, and there the callback changes nothing.
\<close>

lemma cleanup_reachable: "reachable s \<Longrightarrow> cleanup now s = s"
proof -
  assume "reachable s"
  then have "\<forall>kv \<in> set (lobbies s). \<not> cleanupDue now (snd kv)"
    using reachable_seated[of s] by (auto simp: seated_def cleanupDue_def)
  then have "filter (\<lambda>(lid, l). cleanupDue now l) (lobbies s) = []"
    by (auto simp: filter_empty_conv)
  then show ?thesis by (simp add: cleanup_def Let_def)
qed

end
